theory Spec2Isabelle
  imports Complex_Main "HOL-Library.AList"
begin

section \<open>NumPy scalars and arrays\<close>

text \<open>
  The program computes with NumPy. Finite floating-point numbers are modelled by exact
  real (and complex) numbers; the IEEE special values that NumPy produces instead of
  raising (\<open>0.0 / 0.0\<close> is \<open>nan\<close> with a warning, \<open>1.0 / 0.0\<close> is \<open>inf\<close>) are
  explicit constructors, because HOL's own \<open>x / 0 = 0\<close> would hide them. The sum of
  squares inside a norm overflows to \<open>inf\<close> as it does in double precision; other
  overflow, underflow and rounding are not modelled.
\<close>

datatype npfloat = Fin real | NaN | PInf | NInf

text \<open>An array entry: a complex number or \<open>nan\<close>.\<close>

datatype cval = Val complex | CNaN

text \<open>
  An array of rank 1 or of rank 2, with its entries in row-major order. \<open>Mat m n xs\<close>
  has shape \<open>(m, n)\<close>; a well-formed one has \<open>length xs = m * n\<close>.
\<close>

datatype ndarray = Vec "cval list" | Mat nat nat "cval list"

text \<open>Exceptions are identified by the name of their class.\<close>

type_synonym exn = string

abbreviation ValueError :: exn where "ValueError \<equiv> ''ValueError''"
abbreviation LinAlgError :: exn where "LinAlgError \<equiv> ''LinAlgError''"
abbreviation KeyError :: exn where "KeyError \<equiv> ''KeyError''"

subsection \<open>Scalar arithmetic\<close>

fun fl_add :: "npfloat \<Rightarrow> npfloat \<Rightarrow> npfloat" where
  "fl_add (Fin a) (Fin b) = Fin (a + b)"
| "fl_add NaN _ = NaN"
| "fl_add _ NaN = NaN"
| "fl_add PInf NInf = NaN"
| "fl_add NInf PInf = NaN"
| "fl_add PInf _ = PInf"
| "fl_add _ PInf = PInf"
| "fl_add NInf _ = NInf"
| "fl_add _ NInf = NInf"

definition fl_inf :: "bool \<Rightarrow> npfloat" where
  "fl_inf positive = (if positive then PInf else NInf)"

fun fl_mul :: "npfloat \<Rightarrow> npfloat \<Rightarrow> npfloat" where
  "fl_mul (Fin a) (Fin b) = Fin (a * b)"
| "fl_mul NaN _ = NaN"
| "fl_mul _ NaN = NaN"
| "fl_mul (Fin a) PInf = (if a = 0 then NaN else fl_inf (0 < a))"
| "fl_mul (Fin a) NInf = (if a = 0 then NaN else fl_inf (a < 0))"
| "fl_mul PInf (Fin b) = (if b = 0 then NaN else fl_inf (0 < b))"
| "fl_mul NInf (Fin b) = (if b = 0 then NaN else fl_inf (b < 0))"
| "fl_mul PInf PInf = PInf"
| "fl_mul NInf NInf = PInf"
| "fl_mul PInf NInf = NInf"
| "fl_mul NInf PInf = NInf"

text \<open>
  Division of NumPy scalars: a zero divisor gives \<open>nan\<close> for a zero dividend and an
  infinity otherwise; no exception is raised. (Zero is the positive zero: the divisors of
  the program are norms, products of norms and lengths.)
\<close>

fun fl_div :: "npfloat \<Rightarrow> npfloat \<Rightarrow> npfloat" where
  "fl_div (Fin a) (Fin b) =
     (if b \<noteq> 0 then Fin (a / b) else if a = 0 then NaN else fl_inf (0 < a))"
| "fl_div NaN _ = NaN"
| "fl_div _ NaN = NaN"
| "fl_div (Fin a) PInf = Fin 0"
| "fl_div (Fin a) NInf = Fin 0"
| "fl_div PInf (Fin b) = fl_inf (0 \<le> b)"
| "fl_div NInf (Fin b) = fl_inf (b < 0)"
| "fl_div PInf PInf = NaN"
| "fl_div PInf NInf = NaN"
| "fl_div NInf PInf = NaN"
| "fl_div NInf NInf = NaN"

text \<open>Comparisons with \<open>nan\<close> are false.\<close>

fun fl_less :: "npfloat \<Rightarrow> npfloat \<Rightarrow> bool" where
  "fl_less (Fin a) (Fin b) = (a < b)"
| "fl_less NaN _ = False"
| "fl_less _ NaN = False"
| "fl_less NInf NInf = False"
| "fl_less NInf _ = True"
| "fl_less _ NInf = False"
| "fl_less PInf _ = False"
| "fl_less _ PInf = True"

text \<open>\<open>np.clip(x, lo, hi)\<close>, that is \<open>minimum(maximum(x, lo), hi)\<close>: \<open>nan\<close> stays.\<close>

fun np_clip :: "npfloat \<Rightarrow> real \<Rightarrow> real \<Rightarrow> npfloat" where
  "np_clip (Fin x) lo hi = Fin (min (max x lo) hi)"
| "np_clip NaN lo hi = NaN"
| "np_clip PInf lo hi = Fin hi"
| "np_clip NInf lo hi = Fin (min lo hi)"

text \<open>Python's \<open>sum\<close> of a list of floats, and the running total of a loop.\<close>

definition fl_sum :: "npfloat list \<Rightarrow> npfloat" where
  "fl_sum xs = foldl fl_add (Fin 0) xs"

subsection \<open>Entries\<close>

fun cv_add :: "cval \<Rightarrow> cval \<Rightarrow> cval" where
  "cv_add (Val a) (Val b) = Val (a + b)"
| "cv_add _ _ = CNaN"

fun cv_mul :: "cval \<Rightarrow> cval \<Rightarrow> cval" where
  "cv_mul (Val a) (Val b) = Val (a * b)"
| "cv_mul _ _ = CNaN"

fun cv_conj :: "cval \<Rightarrow> cval" where
  "cv_conj (Val a) = Val (cnj a)"
| "cv_conj CNaN = CNaN"

fun cv_abs :: "cval \<Rightarrow> npfloat" where
  "cv_abs (Val a) = Fin (cmod a)"
| "cv_abs CNaN = NaN"

fun cv_real :: "cval \<Rightarrow> npfloat" where
  "cv_real (Val a) = Fin (Re a)"
| "cv_real CNaN = NaN"

definition cv_sum :: "cval list \<Rightarrow> cval" where
  "cv_sum xs = foldr cv_add xs (Val 0)"

text \<open>The inner product of two lists of entries, without conjugation.\<close>

definition cv_dot :: "cval list \<Rightarrow> cval list \<Rightarrow> cval" where
  "cv_dot xs ys = cv_sum (map2 cv_mul xs ys)"

text \<open>The finite entries of a list, when all of them are finite.\<close>

fun vals :: "cval list \<Rightarrow> complex list option" where
  "vals [] = Some []"
| "vals (Val z # xs) = map_option ((#) z) (vals xs)"
| "vals (CNaN # xs) = None"

subsection \<open>Arrays\<close>

fun flatten :: "ndarray \<Rightarrow> cval list" where
  "flatten (Vec xs) = xs"
| "flatten (Mat m n xs) = xs"

text \<open>An array of the same shape with other entries.\<close>

fun reshaped :: "ndarray \<Rightarrow> cval list \<Rightarrow> ndarray" where
  "reshaped (Vec _) ys = Vec ys"
| "reshaped (Mat m n _) ys = Mat m n ys"

text \<open>
  \<open>np.linalg.norm(a)\<close> with the default order: the array is flattened and the result is
  \<open>sqrt(x.dot(x))\<close>, the square root of the sum of the squared moduli of all entries (the
  2-norm of a vector, the Frobenius norm of a matrix). The sum of squares is a double: above
  \<open>float_max\<close>, the largest finite double, it overflows to \<open>inf\<close> and the norm is \<open>inf\<close>.
  Below that bound the sum and the root are taken exactly; rounding, and the loss of squares
  too small for a normal double, are not modelled.
\<close>

definition sqnorm :: "complex list \<Rightarrow> real" where
  "sqnorm zs = sum_list (map (\<lambda>z. (cmod z)\<^sup>2) zs)"

definition float_max :: real where
  "float_max = (2 - 1 / 2 ^ 52) * 2 ^ 1023"

definition np_norm :: "ndarray \<Rightarrow> npfloat" where
  "np_norm a =
     (case vals (flatten a) of
        None \<Rightarrow> NaN
      | Some zs \<Rightarrow> if float_max < sqnorm zs then PInf else Fin (sqrt (sqnorm zs)))"

text \<open>
  \<open>a / np.linalg.norm(a)\<close>: every entry is divided by the norm. A zero norm means that
  every entry is zero, so each quotient is \<open>0 / 0 = nan\<close>; a number divided by an infinite
  norm is \<open>0.0\<close>; NumPy warns at most and does not raise. An array without entries stays
  as it is.
\<close>

fun cv_div_norm :: "npfloat \<Rightarrow> cval \<Rightarrow> cval" where
  "cv_div_norm (Fin r) (Val z) = (if r \<noteq> 0 then Val (z / complex_of_real r) else CNaN)"
| "cv_div_norm PInf (Val z) = Val 0"
| "cv_div_norm NInf (Val z) = Val 0"
| "cv_div_norm _ _ = CNaN"

definition normalized :: "ndarray \<Rightarrow> ndarray" where
  "normalized a = reshaped a (map (cv_div_norm (np_norm a)) (flatten a))"

text \<open>\<open>np.vdot(a, b)\<close>: both arguments flattened, the first one conjugated.\<close>

definition np_vdot :: "cval list \<Rightarrow> cval list \<Rightarrow> exn + cval" where
  "np_vdot xs ys =
     (if length xs \<noteq> length ys then Inl ValueError
      else Inr (cv_dot (map cv_conj xs) ys))"

text \<open>\<open>np.outer(a, b)\<close>: both arguments flattened; the result as a list of rows.\<close>

definition np_outer :: "cval list \<Rightarrow> cval list \<Rightarrow> cval list list" where
  "np_outer xs ys = map (\<lambda>x. map (\<lambda>y. cv_mul x y) ys) xs"

text \<open>The product of two matrices given by their rows, and the trace.\<close>

definition column :: "cval list list \<Rightarrow> nat \<Rightarrow> cval list" where
  "column rs j = map (\<lambda>r. r ! j) rs"

definition matmul :: "cval list list \<Rightarrow> nat \<Rightarrow> cval list list \<Rightarrow> cval list list" where
  "matmul a k b = map (\<lambda>r. map (\<lambda>j. cv_dot r (column b j)) [0..<k]) a"

text \<open>
  \<open>a @ b.T\<close> for matrices given by their rows: the entry at \<open>(i, j)\<close> is the inner
  product of row \<open>i\<close> of \<open>a\<close> with row \<open>j\<close> of \<open>b\<close>.
\<close>

definition matmul_T :: "cval list list \<Rightarrow> cval list list \<Rightarrow> cval list list" where
  "matmul_T a b = map (\<lambda>ra. map (\<lambda>rb. cv_dot ra rb) b) a"

definition np_trace :: "cval list list \<Rightarrow> nat \<Rightarrow> cval" where
  "np_trace rs k = cv_sum (map (\<lambda>i. rs ! i ! i) [0..<min (length rs) k])"

text \<open>The rows of a matrix with \<open>n\<close> columns stored in row-major order.\<close>

definition rows_of :: "nat \<Rightarrow> nat \<Rightarrow> cval list \<Rightarrow> cval list list" where
  "rows_of m n xs = map (\<lambda>i. take n (drop (i * n) xs)) [0..<m]"

section \<open>The fat tree hierarchy\<close>

text \<open>Python's \<open>range(n)\<close> for an integer \<open>n\<close>: empty when \<open>n\<close> is negative.\<close>

definition py_range :: "int \<Rightarrow> nat list" where
  "py_range n = [0..<nat n]"

text \<open>The decimal numeral of a natural number, as an f-string prints it.\<close>

fun str_nat :: "nat \<Rightarrow> string" where
  "str_nat n =
     (if n < 10 then [char_of (48 + n)]
      else str_nat (n div 10) @ [char_of (48 + n mod 10)])"

declare str_nat.simps [simp del]

record Node =
  node_id :: string
  layer :: string
  position :: "nat \<times> nat"
  quantum_state :: "ndarray option"
  ethical_constraints :: "(string \<times> real) list option"

text \<open>
  A dictionary is an association list in insertion order; an assignment to a key that
  is present replaces the value in place (\<open>AList.update\<close>).
\<close>

record FatTreeHierarchy =
  core_nodes :: int
  aggregation_nodes :: int
  edge_nodes :: int
  nodes :: "(string \<times> Node) list"
  edges :: "(string \<times> string) list"

text \<open>
  \<open>np.random.rand(4, 4)\<close>: the sixteen numbers drawn for a node are a parameter, a
  function of the node's id and the position in row-major order.
\<close>

definition rand44 :: "(string \<Rightarrow> nat \<Rightarrow> real) \<Rightarrow> string \<Rightarrow> ndarray" where
  "rand44 rnd nid = Mat 4 4 (map (\<lambda>k. Val (complex_of_real (rnd nid k))) [0..<16])"

definition new_node :: "(string \<Rightarrow> nat \<Rightarrow> real) \<Rightarrow> string \<Rightarrow> string \<Rightarrow> nat \<times> nat \<Rightarrow> real \<Rightarrow> Node" where
  "new_node rnd nid lay pos threshold =
     \<lparr> node_id = nid, layer = lay, position = pos,
       quantum_state = Some (rand44 rnd nid),
       ethical_constraints = Some [(''fidelity_threshold'', threshold)] \<rparr>"

definition create_edges :: "FatTreeHierarchy \<Rightarrow> FatTreeHierarchy" where
  "create_edges h =
     (let core_ids = map (\<lambda>i. ''core_'' @ str_nat i) (py_range (core_nodes h));
          agg_ids = map (\<lambda>i. ''agg_'' @ str_nat i) (py_range (aggregation_nodes h));
          edge_ids = map (\<lambda>i. ''edge_'' @ str_nat i) (py_range (edge_nodes h));
          es1 = concat (map (\<lambda>core_id. map (\<lambda>agg_id. (core_id, agg_id)) agg_ids) core_ids);
          es2 = concat (map (\<lambda>agg_id. map (\<lambda>edge_id. (agg_id, edge_id)) edge_ids) agg_ids)
      in h\<lparr> edges := edges h @ es1 @ es2 \<rparr>)"

definition build_hierarchy :: "(string \<Rightarrow> nat \<Rightarrow> real) \<Rightarrow> FatTreeHierarchy \<Rightarrow> FatTreeHierarchy" where
  "build_hierarchy rnd h =
     (let ns1 = fold (\<lambda>i ns. AList.update (''core_'' @ str_nat i)
                   (new_node rnd (''core_'' @ str_nat i) ''core'' (0, i) (95 / 100)) ns)
                 (py_range (core_nodes h)) (nodes h);
          ns2 = fold (\<lambda>i ns. AList.update (''agg_'' @ str_nat i)
                   (new_node rnd (''agg_'' @ str_nat i) ''aggregation'' (1, i) (90 / 100)) ns)
                 (py_range (aggregation_nodes h)) ns1;
          ns3 = fold (\<lambda>i ns. AList.update (''edge_'' @ str_nat i)
                   (new_node rnd (''edge_'' @ str_nat i) ''edge'' (2, i) (85 / 100)) ns)
                 (py_range (edge_nodes h)) ns2
      in create_edges (h\<lparr> nodes := ns3 \<rparr>))"

text \<open>The constructor \<open>FatTreeHierarchy(core_nodes, aggregation_nodes, edge_nodes)\<close>.\<close>

definition FatTreeHierarchy_init :: "(string \<Rightarrow> nat \<Rightarrow> real) \<Rightarrow> int \<Rightarrow> int \<Rightarrow> int \<Rightarrow> FatTreeHierarchy" where
  "FatTreeHierarchy_init rnd c a e =
     build_hierarchy rnd
       \<lparr> core_nodes = c, aggregation_nodes = a, edge_nodes = e, nodes = [], edges = [] \<rparr>"

subsection \<open>Synchronisation of the layers\<close>

text \<open>
  \<open>np.trace(a @ b.T)\<close>. The product needs two matrices with the same number of columns;
  with a vector on either side the product is a vector or a scalar and \<open>np.trace\<close>
  rejects it. Either failure is a \<open>ValueError\<close>.
\<close>

fun trace_matmul_T :: "ndarray \<Rightarrow> ndarray \<Rightarrow> exn + cval" where
  "trace_matmul_T (Mat m n xs) (Mat k n' ys) =
     (if n \<noteq> n' then Inl ValueError
      else Inr (np_trace (matmul_T (rows_of m n xs) (rows_of k n' ys)) k))"
| "trace_matmul_T _ _ = Inl ValueError"

definition calculate_sync_fidelity :: "Node \<Rightarrow> Node \<Rightarrow> exn + npfloat" where
  "calculate_sync_fidelity node1 node2 =
     (case quantum_state node1 of
        None \<Rightarrow> Inr (Fin 0)
      | Some a \<Rightarrow>
         (case quantum_state node2 of
            None \<Rightarrow> Inr (Fin 0)
          | Some b \<Rightarrow>
             (case trace_matmul_T a b of
                Inl e \<Rightarrow> Inl e
              | Inr overlap \<Rightarrow>
                  (let fidelity = fl_div (cv_abs overlap) (fl_mul (np_norm a) (np_norm b))
                   in Inr (np_clip fidelity 0 1)))))"

text \<open>The loop of \<open>synchronize_layers\<close> with its two accumulators.\<close>

fun sync_loop :: "(string \<times> Node) list \<Rightarrow> (string \<times> string) list \<Rightarrow> npfloat \<Rightarrow> nat
    \<Rightarrow> exn + (npfloat \<times> nat)" where
  "sync_loop ns [] total_fidelity edge_count = Inr (total_fidelity, edge_count)"
| "sync_loop ns (edge # es) total_fidelity edge_count =
     (case map_of ns (fst edge) of
        None \<Rightarrow> Inl KeyError
      | Some node1 \<Rightarrow>
         (case map_of ns (snd edge) of
            None \<Rightarrow> Inl KeyError
          | Some node2 \<Rightarrow>
             (case calculate_sync_fidelity node1 node2 of
                Inl e \<Rightarrow> Inl e
              | Inr fidelity \<Rightarrow>
                  sync_loop ns es (fl_add total_fidelity fidelity) (edge_count + 1))))"

definition synchronize_layers :: "FatTreeHierarchy \<Rightarrow> exn + npfloat" where
  "synchronize_layers h =
     (case sync_loop (nodes h) (edges h) (Fin 0) 0 of
        Inl e \<Rightarrow> Inl e
      | Inr (total_fidelity, edge_count) \<Rightarrow>
          Inr (if edge_count > 0 then fl_div total_fidelity (Fin (real edge_count)) else Fin 0))"

subsection \<open>Resource allocation\<close>







section \<open>The SPC framework\<close>

record QuantumState =
  wavefunction :: ndarray
  coherence :: npfloat
  entanglement_entropy :: npfloat
  ethical_fidelity :: npfloat

record EthicalConstraint =
  name :: string
  threshold :: real
  weight :: real
  description :: string

record SPCFramework =
  dimension :: int
  quantum_states :: "(string \<times> QuantumState) list"
  spc_ethical_constraints :: "EthicalConstraint list"
  consciousness_field :: "ndarray option"

definition initialize_ethical_constraints :: "SPCFramework \<Rightarrow> SPCFramework" where
  "initialize_ethical_constraints fw =
     fw\<lparr> spc_ethical_constraints :=
       [ \<lparr> name = ''fidelity_threshold'', threshold = 95 / 100, weight = 1,
           description = ''Minimum quantum state fidelity'' \<rparr>,
         \<lparr> name = ''coherence_threshold'', threshold = 90 / 100, weight = 8 / 10,
           description = ''Minimum quantum coherence'' \<rparr>,
         \<lparr> name = ''entanglement_bound'', threshold = 85 / 100, weight = 7 / 10,
           description = ''Maximum entanglement entropy'' \<rparr> ] \<rparr>"

text \<open>
  \<open>np.random.rand(d, d)\<close> raises \<open>ValueError\<close> for a negative \<open>d\<close>; the numbers drawn are
  the parameter \<open>frnd\<close>. The field is divided by its norm.
\<close>

definition initialize_consciousness_field :: "(nat \<Rightarrow> real) \<Rightarrow> SPCFramework \<Rightarrow> exn + SPCFramework" where
  "initialize_consciousness_field frnd fw =
     (if dimension fw < 0 then Inl ValueError
      else (let d = nat (dimension fw);
                field = Mat d d (map (\<lambda>k. Val (complex_of_real (frnd k))) [0..<d * d])
            in Inr (fw\<lparr> consciousness_field := Some (normalized field) \<rparr>)))"

definition SPCFramework_init :: "(nat \<Rightarrow> real) \<Rightarrow> int \<Rightarrow> exn + SPCFramework" where
  "SPCFramework_init frnd d =
     initialize_consciousness_field frnd
       (initialize_ethical_constraints
          \<lparr> dimension = d, quantum_states = [], spc_ethical_constraints = [],
            consciousness_field = None \<rparr>)"

definition spc_calculate_coherence :: "ndarray \<Rightarrow> npfloat" where
  "spc_calculate_coherence w =
     (let v = flatten w;
          density_matrix = np_outer v (map cv_conj v);
          purity = np_trace (matmul density_matrix (length v) density_matrix) (length v)
      in cv_real purity)"

text \<open>
  \<open>np.linalg.eigvals(np.outer(v, v.conj()))\<close>. A matrix with a \<open>nan\<close> entry is rejected
  with \<open>LinAlgError\<close>. Otherwise the matrix is Hermitian of rank at most one, and its
  spectrum is the squared norm of \<open>v\<close> once and zero for the other eigenvalues; the
  eigenvalue routine is modelled by this spectrum.
\<close>

definition eigvals_outer :: "cval list \<Rightarrow> exn + complex list" where
  "eigvals_outer v =
     (case vals v of
        None \<Rightarrow> Inl LinAlgError
      | Some zs \<Rightarrow>
          Inr (if zs = [] then []
               else complex_of_real (sqnorm zs) # replicate (length zs - 1) 0))"

text \<open>
  \<open>np.random.normal(0, 0.01, wavefunction.shape)\<close>: the numbers drawn are the parameter
  \<open>noise\<close>, indexed by the position in row-major order; \<open>add_noise\<close> is
  \<open>wavefunction + noise\<close>.
\<close>

definition add_noise :: "(nat \<Rightarrow> real) \<Rightarrow> ndarray \<Rightarrow> ndarray" where
  "add_noise noise w =
     reshaped w (map2 cv_add (flatten w)
       (map (\<lambda>k. Val (complex_of_real (noise k))) [0..<length (flatten w)]))"

definition calculate_entanglement_entropy :: "(nat \<Rightarrow> real) \<Rightarrow> ndarray \<Rightarrow> exn + npfloat" where
  "calculate_entanglement_entropy noise w =
     (let noisy_state = add_noise noise w;
          noisy_state = normalized noisy_state
      in case eigvals_outer (flatten noisy_state) of
           Inl e \<Rightarrow> Inl e
         | Inr eigenvalues \<Rightarrow>
             (let eigenvalues = map Re eigenvalues;
                  eigenvalues = filter (\<lambda>x. x > 1 / 10 ^ 10) eigenvalues;
                  entropy = - sum_list (map (\<lambda>x. x * log 2 (x + 1 / 10 ^ 10)) eigenvalues)
              in Inr (Fin entropy)))"

definition calculate_ethical_fidelity :: "SPCFramework \<Rightarrow> ndarray \<Rightarrow> exn + npfloat" where
  "calculate_ethical_fidelity fw w =
     (case consciousness_field fw of
        None \<Rightarrow> Inr (Fin 1)
      | Some field \<Rightarrow>
         (case np_vdot (flatten w) (flatten field) of
            Inl e \<Rightarrow> Inl e
          | Inr d \<Rightarrow>
              (let overlap = cv_abs d;
                   fidelity = fl_div overlap (fl_mul (np_norm w) (np_norm field))
               in Inr (np_clip fidelity 0 1))))"

text \<open>
  The three derived scalars of a wavefunction and the record made of them: the common
  part of \<open>create_quantum_state\<close> and \<open>evolve_quantum_state\<close>, in the order of the source
  (coherence, entropy, fidelity). An exception leaves the registry as it was, since the
  assignment to the dictionary is the last statement.
\<close>

definition make_state :: "SPCFramework \<Rightarrow> (nat \<Rightarrow> real) \<Rightarrow> ndarray \<Rightarrow> exn + QuantumState" where
  "make_state fw noise w =
     (let c = spc_calculate_coherence w
      in case calculate_entanglement_entropy noise w of
           Inl e \<Rightarrow> Inl e
         | Inr s \<Rightarrow>
            (case calculate_ethical_fidelity fw w of
               Inl e \<Rightarrow> Inl e
             | Inr f \<Rightarrow>
                 Inr \<lparr> wavefunction = w, coherence = c, entanglement_entropy = s,
                       ethical_fidelity = f \<rparr>))"

definition create_quantum_state :: "SPCFramework \<Rightarrow> (nat \<Rightarrow> real) \<Rightarrow> string \<Rightarrow> ndarray
    \<Rightarrow> (exn + QuantumState) \<times> SPCFramework" where
  "create_quantum_state fw noise state_id w =
     (let w = normalized w
      in case make_state fw noise w of
           Inl e \<Rightarrow> (Inl e, fw)
         | Inr q \<Rightarrow>
             (Inr q, fw\<lparr> quantum_states := AList.update state_id q (quantum_states fw) \<rparr>))"

subsection \<open>Evolution\<close>

text \<open>
  The Hamiltonian is a square matrix of the framework's dimension with finite entries,
  given by its entry function; \<open>np.eye(d)\<close> raises \<open>ValueError\<close> for a negative \<open>d\<close>.
\<close>

definition step_matrix :: "nat \<Rightarrow> (nat \<Rightarrow> nat \<Rightarrow> complex) \<Rightarrow> real \<Rightarrow> complex list list" where
  "step_matrix d hamiltonian t =
     map (\<lambda>i. map (\<lambda>j. (if i = j then 1 else 0)
                     - \<i> * hamiltonian i j * complex_of_real t / 1000) [0..<d]) [0..<d]"

definition eye :: "nat \<Rightarrow> complex list list" where
  "eye d = map (\<lambda>i. map (\<lambda>j. if i = j then 1 else 0) [0..<d]) [0..<d]"

definition cmat_mul :: "nat \<Rightarrow> complex list list \<Rightarrow> complex list list \<Rightarrow> complex list list" where
  "cmat_mul d a b =
     map (\<lambda>r. map (\<lambda>j. sum_list (map (\<lambda>l. r ! l * b ! l ! j) [0..<d])) [0..<d]) a"

text \<open>\<open>np.linalg.matrix_power(m, n)\<close>: the product of \<open>n\<close> copies of \<open>m\<close>.\<close>

definition matrix_power :: "nat \<Rightarrow> complex list list \<Rightarrow> nat \<Rightarrow> complex list list" where
  "matrix_power d m n = ((\<lambda>p. cmat_mul d p m) ^^ n) (eye d)"

text \<open>
  \<open>evolution_operator @ wavefunction\<close> for an operator of shape \<open>(d, d)\<close>: a vector needs
  \<open>d\<close> entries and a matrix \<open>d\<close> rows, else \<open>ValueError\<close>.
\<close>

fun apply_operator :: "nat \<Rightarrow> complex list list \<Rightarrow> ndarray \<Rightarrow> exn + ndarray" where
  "apply_operator d u (Vec xs) =
     (if length xs \<noteq> d then Inl ValueError
      else Inr (Vec (map (\<lambda>r. cv_dot (map Val r) xs) u)))"
| "apply_operator d u (Mat m k xs) =
     (if m \<noteq> d then Inl ValueError
      else Inr (Mat d k (concat (map (\<lambda>r. map (\<lambda>j. cv_dot (map Val r)
                           (column (rows_of m k xs) j)) [0..<k]) u))))"

definition evolve_quantum_state :: "SPCFramework \<Rightarrow> (nat \<Rightarrow> real) \<Rightarrow> string
    \<Rightarrow> (nat \<Rightarrow> nat \<Rightarrow> complex) \<Rightarrow> real \<Rightarrow> (exn + QuantumState) \<times> SPCFramework" where
  "evolve_quantum_state fw noise state_id hamiltonian t =
     (case map_of (quantum_states fw) state_id of
        None \<Rightarrow> (Inl ValueError, fw)
      | Some current \<Rightarrow>
          if dimension fw < 0 then (Inl ValueError, fw)
          else
            (let d = nat (dimension fw);
                 evolution_operator = matrix_power d (step_matrix d hamiltonian t) 1000
             in case apply_operator d evolution_operator (wavefunction current) of
                  Inl e \<Rightarrow> (Inl e, fw)
                | Inr evolved_wavefunction \<Rightarrow>
                   (let evolved_wavefunction = normalized evolved_wavefunction
                    in case make_state fw noise evolved_wavefunction of
                         Inl e \<Rightarrow> (Inl e, fw)
                       | Inr updated_state \<Rightarrow>
                           (Inr updated_state,
                            fw\<lparr> quantum_states :=
                              AList.update state_id updated_state (quantum_states fw) \<rparr>))))"

subsection \<open>Constraints and integration\<close>

fun constraints_loop :: "QuantumState \<Rightarrow> EthicalConstraint list \<Rightarrow> bool" where
  "constraints_loop q [] = True"
| "constraints_loop q (c # cs) =
     (if name c = ''fidelity_threshold'' then
        (if fl_less (ethical_fidelity q) (Fin (threshold c)) then False
         else constraints_loop q cs)
      else if name c = ''coherence_threshold'' then
        (if fl_less (coherence q) (Fin (threshold c)) then False
         else constraints_loop q cs)
      else if name c = ''entanglement_bound'' then
        (if fl_less (Fin (threshold c)) (entanglement_entropy q) then False
         else constraints_loop q cs)
      else constraints_loop q cs)"

definition apply_ethical_constraints :: "SPCFramework \<Rightarrow> string \<Rightarrow> bool" where
  "apply_ethical_constraints fw state_id =
     (case map_of (quantum_states fw) state_id of
        None \<Rightarrow> False
      | Some q \<Rightarrow> constraints_loop q (spc_ethical_constraints fw))"

definition get_consciousness_integration :: "SPCFramework \<Rightarrow> string \<Rightarrow> exn + npfloat" where
  "get_consciousness_integration fw state_id =
     (case map_of (quantum_states fw) state_id of
        None \<Rightarrow> Inr (Fin 0)
      | Some q \<Rightarrow>
         (case consciousness_field fw of
            None \<Rightarrow> Inr (Fin 0)
          | Some field \<Rightarrow>
             (case np_vdot (flatten (wavefunction q)) (flatten field) of
                Inl e \<Rightarrow> Inl e
              | Inr d \<Rightarrow> Inr (np_clip (cv_abs d) 0 1))))"

definition update_consciousness_field :: "SPCFramework \<Rightarrow> ndarray \<Rightarrow> SPCFramework" where
  "update_consciousness_field fw new_field =
     fw\<lparr> consciousness_field := Some (normalized new_field) \<rparr>"

section \<open>The system architecture\<close>

record SystemState =
  initialized :: bool
  synchronization_fidelity :: npfloat
  resource_optimization_score :: npfloat
  ethical_compliance :: npfloat
  consciousness_integration :: npfloat

record SystemArchitecture =
  fat_tree :: FatTreeHierarchy
  spc_framework :: SPCFramework
  system_state :: SystemState

text \<open>
  The constructor \<open>SystemArchitecture(core_nodes, aggregation_nodes, edge_nodes,
  quantum_dimension)\<close>: the hierarchy is built first, then the framework.
\<close>

definition SystemArchitecture_init :: "(string \<Rightarrow> nat \<Rightarrow> real) \<Rightarrow> (nat \<Rightarrow> real)
    \<Rightarrow> int \<Rightarrow> int \<Rightarrow> int \<Rightarrow> int \<Rightarrow> exn + SystemArchitecture" where
  "SystemArchitecture_init rnd frnd c a e d =
     (let ft = FatTreeHierarchy_init rnd c a e
      in case SPCFramework_init frnd d of
           Inl x \<Rightarrow> Inl x
         | Inr spc \<Rightarrow>
             Inr \<lparr> fat_tree = ft, spc_framework = spc,
                   system_state = \<lparr> initialized = True, synchronization_fidelity = Fin 0,
                     resource_optimization_score = Fin 0, ethical_compliance = Fin 0,
                     consciousness_integration = Fin 0 \<rparr> \<rparr>)"


definition average :: "npfloat list \<Rightarrow> npfloat" where
  "average xs = (if xs \<noteq> [] then fl_div (fl_sum xs) (Fin (real (length xs))) else Fin 0)"



fun consciousness_loop :: "SPCFramework \<Rightarrow> string list \<Rightarrow> exn + npfloat list" where
  "consciousness_loop fw [] = Inr []"
| "consciousness_loop fw (state_id # ids) =
     (case get_consciousness_integration fw state_id of
        Inl e \<Rightarrow> Inl e
      | Inr c \<Rightarrow>
         (case consciousness_loop fw ids of
            Inl e \<Rightarrow> Inl e
          | Inr cs \<Rightarrow> Inr (c # cs)))"

text \<open>
  \<open>synchronize_system\<close> has no \<open>try\<close>: an exception propagates. The system state is
  written after all three averages are computed. \<open>ethical_scores\<close> is the list built by
  the first loop: 1.0 for a record that passes its constraints, 0.0 otherwise.
\<close>

definition ethical_scores :: "SPCFramework \<Rightarrow> npfloat list" where
  "ethical_scores fw =
     map (\<lambda>state_id. if apply_ethical_constraints fw state_id then Fin 1 else Fin 0)
       (map fst (quantum_states fw))"

definition synchronize_system :: "SystemArchitecture \<Rightarrow> (exn + npfloat) \<times> SystemArchitecture" where
  "synchronize_system arch =
     (case synchronize_layers (fat_tree arch) of
        Inl e \<Rightarrow> (Inl e, arch)
      | Inr tree_sync \<Rightarrow>
         (let fw = spc_framework arch;
              ids = map fst (quantum_states fw);
              avg_ethical = average (ethical_scores fw)
          in case consciousness_loop fw ids of
               Inl e \<Rightarrow> (Inl e, arch)
             | Inr consciousness_scores \<Rightarrow>
                (let avg_consciousness = average consciousness_scores;
                     overall_sync =
                       fl_div (fl_add (fl_add tree_sync avg_ethical) avg_consciousness) (Fin 3)
                 in (Inr overall_sync,
                     arch\<lparr> system_state := (system_state arch)
                       \<lparr> synchronization_fidelity := tree_sync,
                         ethical_compliance := avg_ethical,
                         consciousness_integration := avg_consciousness \<rparr> \<rparr>))))"

section \<open>Ranges\<close>

text \<open>A score in the closed unit interval, and a running total of \<open>n\<close> such scores.\<close>

definition in_unit :: "npfloat \<Rightarrow> bool" where
  "in_unit x = (case x of Fin r \<Rightarrow> 0 \<le> r \<and> r \<le> 1 | _ \<Rightarrow> False)"

definition acc_ok :: "npfloat \<Rightarrow> nat \<Rightarrow> bool" where
  "acc_ok t n = (case t of Fin r \<Rightarrow> 0 \<le> r \<and> r \<le> real n | NaN \<Rightarrow> True | _ \<Rightarrow> False)"

section \<open>Example inputs\<close>

text \<open>Concrete states and frameworks at which the properties below are evaluated.\<close>

definition zeros44 :: ndarray where
  "zeros44 = Mat 4 4 (replicate 16 (Val 0))"

definition ones44 :: ndarray where
  "ones44 = Mat 4 4 (replicate 16 (Val 1))"

definition node_with :: "ndarray \<Rightarrow> Node" where
  "node_with a = \<lparr> node_id = ''core_0'', layer = ''core'', position = (0, 0),
      quantum_state = Some a, ethical_constraints = Some [(''fidelity_threshold'', 95 / 100)] \<rparr>"

definition zeros4 :: ndarray where
  "zeros4 = Vec [Val 0, Val 0, Val 0, Val 0]"

definition fw_ex :: SPCFramework where
  "fw_ex = \<lparr> dimension = 1, quantum_states = [],
     spc_ethical_constraints = [], consciousness_field = Some (Mat 1 1 [Val 1]) \<rparr>"

definition q_ex :: QuantumState where
  "q_ex = \<lparr> wavefunction = Vec [Val 1], coherence = Fin 1,
     entanglement_entropy = Fin (- log 2 (1 + 1 / 10 ^ 10)), ethical_fidelity = Fin 1 \<rparr>"

definition fw_ex1 :: SPCFramework where
  "fw_ex1 = fw_ex\<lparr> quantum_states := [(''psi'', q_ex)] \<rparr>"

definition fw_old :: SPCFramework where
  "fw_old = fw_ex\<lparr> quantum_states := [(''psi'', q_ex\<lparr> coherence := Fin 0 \<rparr>)] \<rparr>"

text \<open>
  Systems of one core node and one aggregation node: all random draws zero, all random
  draws one, and all draws one with quantum dimension 2. A stand-in for the eigenvalue
  routine, and a unit vector of four entries with a noise that doubles its first entry.
\<close>

definition zero_arch :: SystemArchitecture where
  "zero_arch = projr (SystemArchitecture_init (\<lambda>_ _. 0) (\<lambda>_. 1) 1 1 0 4)"

definition ones_arch :: SystemArchitecture where
  "ones_arch = projr (SystemArchitecture_init (\<lambda>_ _. 1) (\<lambda>_. 1) 1 1 0 4)"



definition fw2 :: SPCFramework where
  "fw2 = projr (SPCFramework_init (\<lambda>_. 1) 2)"

definition e1 :: ndarray where
  "e1 = Vec [Val 1, Val 0, Val 0, Val 0]"

definition noise1 :: "nat \<Rightarrow> real" where
  "noise1 k = (if k = 0 then 1 else 0)"

definition q8 :: QuantumState where
  "q8 = \<lparr> wavefunction = e1, coherence = Fin 1,
     entanglement_entropy = Fin (- log 2 (1 + 1 / 10 ^ 10)), ethical_fidelity = Fin (1 / 2) \<rparr>"

text \<open>
  A vector of four entries whose sum of squares is above the largest double, a noise
  that touches the first entry only, the framework of dimension 2 with every draw one
  half, and the record that registering the vector stores.
\<close>

definition big4 :: ndarray where
  "big4 = Vec [Val (10 ^ 200), Val 0, Val 0, Val 0]"

definition noise_small :: "nat \<Rightarrow> real" where
  "noise_small k = (if k = 0 then 1 / 100 else 0)"

definition fw_half :: SPCFramework where
  "fw_half = projr (SPCFramework_init (\<lambda>_. 1 / 2) 2)"

definition q_big :: QuantumState where
  "q_big = \<lparr> wavefunction = zeros4, coherence = Fin 0,
     entanglement_entropy = Fin (- log 2 (1 + 1 / 10 ^ 10)), ethical_fidelity = NaN \<rparr>"

text \<open>
  A system of one core node and one aggregation node, with any random draws, after the
  assignment \<open>arch.fat_tree.nodes['core_0'].quantum_state = np.zeros((4, 4))\<close>.
\<close>

definition zeroed_arch :: "(string \<Rightarrow> nat \<Rightarrow> real) \<Rightarrow> (nat \<Rightarrow> real) \<Rightarrow> SystemArchitecture" where
  "zeroed_arch rnd frnd =
     (let arch = projr (SystemArchitecture_init rnd frnd 1 1 0 4)
      in arch\<lparr> fat_tree := (fat_tree arch)
           \<lparr> nodes := AList.map_entry ''core_0'' (\<lambda>n. n\<lparr> quantum_state := Some zeros44 \<rparr>)
                        (nodes (fat_tree arch)) \<rparr> \<rparr>)"

text \<open>Reading a decimal numeral back, the left inverse of \<open>str_nat\<close>.\<close>

definition dec_val :: "string \<Rightarrow> nat" where
  "dec_val s = foldl (\<lambda>a c. 10 * a + (of_char c - 48)) 0 s"

section \<open>Properties\<close>

subsection \<open>The range of doubles\<close>

text \<open>The largest double is far above the sums of squares of the examples.\<close>

lemma float_max_ge: "16 \<le> float_max"
proof -
  have "(1::real) \<le> 2 - 1 / 2 ^ 52" by simp
  moreover have "(16::real) \<le> 2 ^ 1023"
    using power_increasing[of 4 1023 "2::real"] by simp
  ultimately have "1 * (16::real) \<le> (2 - 1 / 2 ^ 52) * 2 ^ 1023"
    by (intro mult_mono) simp_all
  then show ?thesis by (simp only: float_max_def mult_1)
qed

lemma no_overflow [simp]: "x \<le> 16 \<Longrightarrow> \<not> float_max < x"
  using float_max_ge by simp


subsection \<open>Node ids are distinct\<close>

text \<open>Reading a decimal numeral back gives the number, so \<open>str_nat\<close> is injective.\<close>

lemma dec_val_snoc: "dec_val (s @ [c]) = 10 * dec_val s + (of_char c - 48)"
  by (simp add: dec_val_def)

lemma digit_back: "n < 10 \<Longrightarrow> (of_char (char_of (48 + n)) :: nat) - 48 = n"
  by (simp add: of_char_of)

lemma dec_val_str_nat: "dec_val (str_nat n) = n"
proof (induction n rule: str_nat.induct)
  case (1 n)
  show ?case
  proof (cases "n < 10")
    case True
    then show ?thesis
      using digit_back[of n] by (subst str_nat.simps) (simp add: dec_val_def)
  next
    case False
    have d: "(of_char (char_of (48 + n mod 10)) :: nat) - 48 = n mod 10"
      by (rule digit_back) simp
    have "dec_val (str_nat n) = 10 * dec_val (str_nat (n div 10)) + n mod 10"
      using False d by (subst str_nat.simps) (simp add: dec_val_snoc)
    then show ?thesis using 1 False by simp
  qed
qed

lemma str_nat_inj: "str_nat i = str_nat j \<Longrightarrow> i = j"
  by (metis dec_val_str_nat)

subsection \<open>Dictionaries\<close>

lemma dom_fold_update:
  "fst ` set (fold (\<lambda>i ns. AList.update (f i) (g i) ns) is al) = fst ` set al \<union> f ` set is"
  by (induction "is" arbitrary: al) (auto simp: dom_update)

lemma distinct_fold_update:
  "distinct (map fst al) \<Longrightarrow>
   distinct (map fst (fold (\<lambda>i ns. AList.update (f i) (g i) ns) is al))"
  by (induction "is" arbitrary: al) (auto simp: distinct_update)

lemma length_keys: "distinct (map fst al) \<Longrightarrow> length al = card (fst ` set al)"
  by (metis distinct_card length_map set_map)

lemma length_concat_pairs:
  "length (concat (map (\<lambda>x. map (f x) ys) xs)) = length xs * length ys"
  by (induction xs) auto

lemma map_of_fold_update_other:
  "k \<notin> f ` set is \<Longrightarrow>
   map_of (fold (\<lambda>i ns. AList.update (f i) (g i) ns) is al) k = map_of al k"
  by (induction "is" arbitrary: al) (auto simp: update_conv')

lemma map_of_fold_update_in:
  "inj_on f (set is) \<Longrightarrow> i \<in> set is \<Longrightarrow>
   map_of (fold (\<lambda>i ns. AList.update (f i) (g i) ns) is al) (f i) = Some (g i)"
proof (induction "is" arbitrary: al)
  case Nil
  then show ?case by simp
next
  case (Cons x xs)
  have inj: "inj_on f (set xs)" using Cons.prems(1) by (simp add: inj_on_def)
  show ?case
  proof (cases "i \<in> set xs")
    case True
    then show ?thesis using Cons.IH[OF inj] by simp
  next
    case False
    then have ix: "i = x" using Cons.prems(2) by simp
    have "f x \<notin> f ` set xs"
    proof
      assume "f x \<in> f ` set xs"
      then obtain y where y: "y \<in> set xs" "f x = f y" by auto
      then have "x = y" using Cons.prems(1) by (auto simp: inj_on_def)
      then show False using y(1) False ix by simp
    qed
    then show ?thesis by (simp add: ix map_of_fold_update_other update_conv')
  qed
qed


subsection \<open>The size of the hierarchy\<close>

lemma nodes_keys:
  "fst ` set (nodes (FatTreeHierarchy_init rnd c a e)) =
     (\<lambda>i. ''core_'' @ str_nat i) ` {0..<nat c} \<union> (\<lambda>i. ''agg_'' @ str_nat i) ` {0..<nat a}
     \<union> (\<lambda>i. ''edge_'' @ str_nat i) ` {0..<nat e}"
  by (simp add: FatTreeHierarchy_init_def build_hierarchy_def create_edges_def Let_def
      dom_fold_update py_range_def)

lemma nodes_distinct: "distinct (map fst (nodes (FatTreeHierarchy_init rnd c a e)))"
  by (simp add: FatTreeHierarchy_init_def build_hierarchy_def create_edges_def Let_def
      distinct_fold_update)

lemma nodes_length:
  "length (nodes (FatTreeHierarchy_init rnd c a e)) = nat c + nat a + nat e"
proof -
  let ?C = "(\<lambda>i. ''core_'' @ str_nat i) ` {0..<nat c}"
  let ?A = "(\<lambda>i. ''agg_'' @ str_nat i) ` {0..<nat a}"
  let ?E = "(\<lambda>i. ''edge_'' @ str_nat i) ` {0..<nat e}"
  have cC: "card ?C = nat c" by (subst card_image) (auto simp: inj_on_def dest: str_nat_inj)
  have cA: "card ?A = nat a" by (subst card_image) (auto simp: inj_on_def dest: str_nat_inj)
  have cE: "card ?E = nat e" by (subst card_image) (auto simp: inj_on_def dest: str_nat_inj)
  have d1: "?C \<inter> ?A = {}" by auto
  have d2: "(?C \<union> ?A) \<inter> ?E = {}" by auto
  have "card (?C \<union> ?A \<union> ?E) = card (?C \<union> ?A) + card ?E"
    by (rule card_Un_disjoint) (use d2 in auto)
  also have "card (?C \<union> ?A) = card ?C + card ?A"
    by (rule card_Un_disjoint) (use d1 in auto)
  finally show ?thesis
    using length_keys[OF nodes_distinct, of rnd c a e] nodes_keys[of rnd c a e] cC cA cE
    by simp
qed

lemma edges_length:
  "length (edges (FatTreeHierarchy_init rnd c a e)) = nat c * nat a + nat a * nat e"
  by (simp add: FatTreeHierarchy_init_def build_hierarchy_def create_edges_def Let_def
      length_concat_pairs py_range_def del: map_map)

lemma edges_set:
  "set (edges (FatTreeHierarchy_init rnd c a e)) =
     {(''core_'' @ str_nat i, ''agg_'' @ str_nat j) | i j. i < nat c \<and> j < nat a}
     \<union> {(''agg_'' @ str_nat j, ''edge_'' @ str_nat k) | j k. j < nat a \<and> k < nat e}"
  by (auto simp: FatTreeHierarchy_init_def build_hierarchy_def create_edges_def Let_def
      py_range_def)

lemma inj_ids: "inj_on (\<lambda>i. p @ str_nat i) A"
  by (auto simp: inj_on_def dest: str_nat_inj)

lemma nodes_unfold:
  "nodes (FatTreeHierarchy_init rnd c a e) =
     fold (\<lambda>i ns. AList.update (''edge_'' @ str_nat i)
            (new_node rnd (''edge_'' @ str_nat i) ''edge'' (2, i) (85 / 100)) ns) [0..<nat e]
      (fold (\<lambda>i ns. AList.update (''agg_'' @ str_nat i)
            (new_node rnd (''agg_'' @ str_nat i) ''aggregation'' (1, i) (90 / 100)) ns) [0..<nat a]
        (fold (\<lambda>i ns. AList.update (''core_'' @ str_nat i)
            (new_node rnd (''core_'' @ str_nat i) ''core'' (0, i) (95 / 100)) ns) [0..<nat c] []))"
  by (simp add: FatTreeHierarchy_init_def build_hierarchy_def create_edges_def Let_def
      py_range_def)

lemma core_node:
  assumes "i < nat c"
  shows "map_of (nodes (FatTreeHierarchy_init rnd c a e)) (''core_'' @ str_nat i) =
           Some (new_node rnd (''core_'' @ str_nat i) ''core'' (0, i) (95 / 100))"
proof -
  have i: "i \<in> set [0..<nat c]" using assms by simp
  have n1: "''core_'' @ str_nat i \<notin> (\<lambda>i. ''edge_'' @ str_nat i) ` set [0..<nat e]" by auto
  have n2: "''core_'' @ str_nat i \<notin> (\<lambda>i. ''agg_'' @ str_nat i) ` set [0..<nat a]" by auto
  show ?thesis
    unfolding nodes_unfold
    by (simp only: map_of_fold_update_other[OF n1] map_of_fold_update_other[OF n2]
        map_of_fold_update_in[OF inj_ids i])
qed

lemma agg_node:
  assumes "i < nat a"
  shows "map_of (nodes (FatTreeHierarchy_init rnd c a e)) (''agg_'' @ str_nat i) =
           Some (new_node rnd (''agg_'' @ str_nat i) ''aggregation'' (1, i) (90 / 100))"
proof -
  have i: "i \<in> set [0..<nat a]" using assms by simp
  have n1: "''agg_'' @ str_nat i \<notin> (\<lambda>i. ''edge_'' @ str_nat i) ` set [0..<nat e]" by auto
  show ?thesis
    unfolding nodes_unfold
    by (simp only: map_of_fold_update_other[OF n1] map_of_fold_update_in[OF inj_ids i])
qed

lemma edge_node:
  assumes "i < nat e"
  shows "map_of (nodes (FatTreeHierarchy_init rnd c a e)) (''edge_'' @ str_nat i) =
           Some (new_node rnd (''edge_'' @ str_nat i) ''edge'' (2, i) (85 / 100))"
proof -
  have i: "i \<in> set [0..<nat e]" using assms by simp
  show ?thesis
    unfolding nodes_unfold by (simp only: map_of_fold_update_in[OF inj_ids i])
qed

text \<open>
  C1. For all non-negative counts \<open>core\<close>, \<open>agg\<close>, \<open>edge\<close>, the hierarchy that the
  constructor builds has exactly \<open>core + agg + edge\<close> nodes and exactly
  \<open>core * agg + agg * edge\<close> edges. The edges are the two full bipartite sets: every pair
  of a core node and an aggregation node, every pair of an aggregation node and an edge
  node, and nothing else. Every id of a layer is bound to the node of that layer and
  position.
\<close>

theorem C1_hierarchy_size:
  assumes "0 \<le> c" and "0 \<le> a" and "0 \<le> e"
  shows "int (length (nodes (FatTreeHierarchy_init rnd c a e))) = c + a + e
       \<and> int (length (edges (FatTreeHierarchy_init rnd c a e))) = c * a + a * e
       \<and> set (edges (FatTreeHierarchy_init rnd c a e)) =
           {(''core_'' @ str_nat i, ''agg_'' @ str_nat j) | i j. i < nat c \<and> j < nat a}
           \<union> {(''agg_'' @ str_nat j, ''edge_'' @ str_nat k) | j k. j < nat a \<and> k < nat e}
       \<and> (\<forall>i < nat c. map_of (nodes (FatTreeHierarchy_init rnd c a e)) (''core_'' @ str_nat i) =
             Some (new_node rnd (''core_'' @ str_nat i) ''core'' (0, i) (95 / 100)))
       \<and> (\<forall>j < nat a. map_of (nodes (FatTreeHierarchy_init rnd c a e)) (''agg_'' @ str_nat j) =
             Some (new_node rnd (''agg_'' @ str_nat j) ''aggregation'' (1, j) (90 / 100)))
       \<and> (\<forall>k < nat e. map_of (nodes (FatTreeHierarchy_init rnd c a e)) (''edge_'' @ str_nat k) =
             Some (new_node rnd (''edge_'' @ str_nat k) ''edge'' (2, k) (85 / 100)))"
proof (intro conjI allI impI)
  show "int (length (nodes (FatTreeHierarchy_init rnd c a e))) = c + a + e"
    using assms by (simp add: nodes_length)
  show "int (length (edges (FatTreeHierarchy_init rnd c a e))) = c * a + a * e"
    using assms by (simp add: edges_length)
qed (simp_all only: edges_set core_node agg_node edge_node)

theorem C1_hierarchy_size_witness:
  "(0::int) \<le> 4 \<and> (0::int) \<le> 8 \<and> (0::int) \<le> 16
   \<and> int (length (nodes (FatTreeHierarchy_init (\<lambda>_ _. 0) 4 8 16))) = 28
   \<and> int (length (edges (FatTreeHierarchy_init (\<lambda>_ _. 0) 4 8 16))) = 160
   \<and> set (edges (FatTreeHierarchy_init (\<lambda>_ _. 0) 4 8 16)) =
       {(''core_'' @ str_nat i, ''agg_'' @ str_nat j) | i j. i < 4 \<and> j < 8}
       \<union> {(''agg_'' @ str_nat j, ''edge_'' @ str_nat k) | j k. j < 8 \<and> k < 16}
   \<and> (3::nat) < 4
   \<and> map_of (nodes (FatTreeHierarchy_init (\<lambda>_ _. 0) 4 8 16)) (''core_'' @ str_nat 3) =
       Some (new_node (\<lambda>_ _. 0) (''core_'' @ str_nat 3) ''core'' (0, 3) (95 / 100))"
  using C1_hierarchy_size[of 4 8 16 "\<lambda>_ _. 0"] by simp

subsection \<open>The fidelity of an edge\<close>


lemma cv_mul_commute: "cv_mul x y = cv_mul y x"
  by (cases x; cases y) (simp_all add: mult.commute)

lemma map2_cv_mul_commute: "map2 cv_mul xs ys = map2 cv_mul ys xs"
proof (induction xs arbitrary: ys)
  case Nil
  then show ?case by simp
next
  case (Cons x xs)
  then show ?case by (cases ys) (simp_all add: cv_mul_commute)
qed

lemma cv_dot_commute: "cv_dot xs ys = cv_dot ys xs"
  by (simp add: cv_dot_def map2_cv_mul_commute)

lemma fl_mul_commute: "fl_mul x y = fl_mul y x"
  by (cases x; cases y) (simp_all add: mult.commute)

lemma length_rows_of [simp]: "length (rows_of m n xs) = m"
  by (simp add: rows_of_def)

lemma trace_matmul_T_rows:
  "np_trace (matmul_T a b) (length b)
     = cv_sum (map (\<lambda>i. cv_dot (a ! i) (b ! i)) [0..<min (length a) (length b)])"
proof -
  have eq: "map (\<lambda>i. matmul_T a b ! i ! i) [0..<min (length a) (length b)]
      = map (\<lambda>i. cv_dot (a ! i) (b ! i)) [0..<min (length a) (length b)]"
    by (rule map_cong) (simp_all add: matmul_T_def)
  have len: "length (matmul_T a b) = length a"
    by (simp add: matmul_T_def)
  show ?thesis by (simp only: np_trace_def len eq)
qed

lemma trace_matmul_T_commute:
  "np_trace (matmul_T a b) (length b) = np_trace (matmul_T b a) (length a)"
  by (simp add: trace_matmul_T_rows cv_dot_commute min.commute)

lemma trace_matmul_T_sym: "trace_matmul_T a b = trace_matmul_T b a"
proof (cases a)
  case (Vec xs)
  then show ?thesis by (cases b) simp_all
next
  case (Mat m n xs)
  note A = this
  show ?thesis
  proof (cases b)
    case (Vec ys)
    then show ?thesis using A by simp
  next
    case (Mat k n' ys)
    show ?thesis
      using A Mat
        trace_matmul_T_commute[of "rows_of m n xs" "rows_of k n ys"]
      by auto
  qed
qed

text \<open>
  C7. The fidelity of an edge is symmetric: for all nodes, with any states or none,
  \<open>_calculate_sync_fidelity(node1, node2)\<close> and \<open>_calculate_sync_fidelity(node2, node1)\<close>
  give the same result (the same score or the same exception).
\<close>

theorem C7_fidelity_symmetric:
  "calculate_sync_fidelity node1 node2 = calculate_sync_fidelity node2 node1"
  by (simp add: calculate_sync_fidelity_def trace_matmul_T_sym fl_mul_commute
      split: option.splits sum.splits)

lemma upt4: "[0..<4] = [0, 1, 2, 3]"
  by (simp add: upt_rec)

text \<open>
  C3. The claim: the fidelity of an edge is 0 when an operand is absent or has Frobenius
  norm 0. The code guards the absent operand only. For a state of norm zero it divides
  \<open>0.0\<close> by \<open>0.0\<close>: with the zero matrix of shape \<open>(4, 4)\<close> on one side and the
  matrix of ones on the other the result is \<open>nan\<close>, not 0.
\<close>

theorem C3_zero_norm_gives_nan:
  "calculate_sync_fidelity (node_with zeros44) (node_with ones44) = Inr NaN"
  by (simp add: calculate_sync_fidelity_def node_with_def zeros44_def ones44_def
      np_trace_def matmul_T_def rows_of_def cv_dot_def cv_sum_def np_norm_def sqnorm_def upt4
      numeral_eq_Suc)

subsection \<open>Norms and normalisation\<close>


lemma vals_Some_map: "vals xs = Some zs \<Longrightarrow> xs = map Val zs"
proof (induction xs arbitrary: zs rule: vals.induct)
  case 1
  then show ?case by simp
next
  case (2 z xs)
  then show ?case by (cases "vals xs") auto
next
  case (3 xs)
  then show ?case by simp
qed

lemma vals_map_Val [simp]: "vals (map Val zs) = Some zs"
  by (induction zs) simp_all

lemma vals_None_iff: "vals xs = None \<longleftrightarrow> CNaN \<in> set xs"
  by (induction xs rule: vals.induct) auto

lemma flatten_reshaped [simp]: "flatten (reshaped a ys) = ys"
  by (cases a) simp_all

lemma vals_map_Val_comp [simp]: "vals (map (Val \<circ> f) zs) = Some (map f zs)"
  by (induction zs) simp_all

lemma sqnorm_Nil [simp]: "sqnorm [] = 0"
  by (simp add: sqnorm_def)

lemma sqnorm_Cons [simp]: "sqnorm (z # zs) = (cmod z)\<^sup>2 + sqnorm zs"
  by (simp add: sqnorm_def)

lemma sqnorm_nonneg: "0 \<le> sqnorm zs"
  by (induction zs) simp_all

lemma sqnorm_zero_iff: "sqnorm zs = 0 \<longleftrightarrow> (\<forall>z \<in> set zs. z = 0)"
proof (induction zs)
  case Nil
  then show ?case by simp
next
  case (Cons z zs)
  have "(cmod z)\<^sup>2 + sqnorm zs = 0 \<longleftrightarrow> (cmod z)\<^sup>2 = 0 \<and> sqnorm zs = 0"
    by (rule add_nonneg_eq_0_iff) (simp_all add: sqnorm_nonneg)
  then show ?case using Cons by simp
qed

lemma cv_div_norm_zero [simp]: "cv_div_norm (Fin 0) x = CNaN"
  by (cases x) simp_all

lemma cv_div_norm_nan [simp]: "cv_div_norm NaN x = CNaN"
  by simp

lemma map_div_zero: "map (cv_div_norm (Fin 0)) xs = replicate (length xs) CNaN"
  by (induction xs) simp_all

lemma map_div_nan: "map (cv_div_norm NaN) xs = replicate (length xs) CNaN"
  by (induction xs) simp_all

lemma sqnorm_scale: "sqnorm (map (\<lambda>z. z / complex_of_real r) zs) = sqnorm zs / r\<^sup>2"
  by (induction zs) (simp_all add: norm_divide power_divide add_divide_distrib)

text \<open>The norm is a finite number exactly for an array without nan entry whose sum of
  squares does not overflow.\<close>

lemma np_norm_Fin:
  "np_norm a = Fin r \<longleftrightarrow>
     (\<exists>zs. vals (flatten a) = Some zs \<and> sqnorm zs \<le> float_max \<and> r = sqrt (sqnorm zs))"
  by (auto simp: np_norm_def split: option.splits)

lemma np_norm_PInf:
  "np_norm a = PInf \<longleftrightarrow> (\<exists>zs. vals (flatten a) = Some zs \<and> float_max < sqnorm zs)"
  by (auto simp: np_norm_def split: option.splits)

lemma np_norm_cases: "np_norm a = NaN \<or> np_norm a = PInf \<or> (\<exists>r. np_norm a = Fin r \<and> 0 \<le> r)"
  by (auto simp: np_norm_def sqnorm_nonneg split: option.splits)

text \<open>Division by a non-zero finite norm gives a unit vector.\<close>

lemma normalized_finite:
  assumes "vals (flatten a) = Some zs" and "sqnorm zs \<noteq> 0" and "sqnorm zs \<le> float_max"
  shows "flatten (normalized a) = map Val (map (\<lambda>z. z / complex_of_real (sqrt (sqnorm zs))) zs)"
proof -
  have "flatten a = map Val zs" using assms(1) by (rule vals_Some_map)
  moreover have "sqrt (sqnorm zs) \<noteq> 0" using assms(2) by simp
  moreover have "\<not> float_max < sqnorm zs" using assms(3) by simp
  ultimately show ?thesis by (simp add: normalized_def np_norm_def assms(1))
qed

lemma normalized_unit:
  assumes "vals (flatten a) = Some zs" and "sqnorm zs \<noteq> 0" and "sqnorm zs \<le> float_max"
  shows "np_norm (normalized a) = Fin 1"
proof -
  have pos: "0 < sqnorm zs" using assms(2) sqnorm_nonneg[of zs] by simp
  have "sqnorm (map (\<lambda>z. z / complex_of_real (sqrt (sqnorm zs))) zs) = 1"
    using pos by (simp add: sqnorm_scale)
  then show ?thesis by (simp add: np_norm_def normalized_finite[OF assms])
qed

text \<open>Division by a zero norm, or by nan, gives nan entries.\<close>

lemma normalized_zero_norm:
  assumes "np_norm a = Fin 0"
  shows "flatten (normalized a) = replicate (length (flatten a)) CNaN"
  by (simp add: normalized_def assms map_div_zero)

lemma normalized_nan:
  assumes "np_norm a = NaN"
  shows "flatten (normalized a) = replicate (length (flatten a)) CNaN"
  by (simp add: normalized_def assms map_div_nan)

lemma vals_replicate_nan: "n \<noteq> 0 \<Longrightarrow> vals (replicate n CNaN) = None"
  by (cases n) simp_all

text \<open>Division by an infinite norm gives the zero vector.\<close>

lemma map_div_inf: "map (cv_div_norm PInf) (map Val zs) = replicate (length zs) (Val 0)"
  by (induction zs) simp_all

lemma normalized_overflow:
  assumes "vals (flatten a) = Some zs" and "float_max < sqnorm zs"
  shows "flatten (normalized a) = replicate (length (flatten a)) (Val 0)"
proof -
  have fl: "flatten a = map Val zs" using assms(1) by (rule vals_Some_map)
  have "np_norm a = PInf" using assms by (simp add: np_norm_def)
  then have "flatten (normalized a) = map (cv_div_norm PInf) (map Val zs)"
    by (simp add: normalized_def fl)
  then show ?thesis by (simp only: map_div_inf fl length_map)
qed

lemma vals_replicate_zero: "vals (replicate n (Val 0)) = Some (replicate n 0)"
  by (induction n) simp_all

lemma sqnorm_replicate_zero [simp]: "sqnorm (replicate n 0) = 0"
  by (induction n) simp_all

text \<open>The finite entries of a normalised array: the cases.\<close>

lemma normalized_vals:
  "vals (flatten (normalized a)) = Some us \<Longrightarrow>
     (flatten a = [] \<and> us = []) \<or>
     (flatten a \<noteq> [] \<and>
      (\<exists>zs. vals (flatten a) = Some zs \<and> sqnorm zs \<noteq> 0 \<and> sqnorm zs \<le> float_max \<and>
            sqnorm us = 1 \<and> us \<noteq> [])) \<or>
     (flatten a \<noteq> [] \<and> np_norm a = PInf \<and> us = replicate (length (flatten a)) 0)"
proof -
  assume fin: "vals (flatten (normalized a)) = Some us"
  show ?thesis
  proof (cases "flatten a = []")
    case True
    then show ?thesis using fin by (simp add: normalized_def)
  next
    case False
    then have len: "length (flatten a) \<noteq> 0" by simp
    show ?thesis
    proof (cases "vals (flatten a)")
      case None
      then have "np_norm a = NaN" by (simp add: np_norm_def)
      then show ?thesis using fin len by (simp add: normalized_nan vals_replicate_nan)
    next
      case (Some zs)
      show ?thesis
      proof (cases "float_max < sqnorm zs")
        case True
        then have inf: "np_norm a = PInf" by (simp add: np_norm_def Some)
        have "us = replicate (length (flatten a)) 0"
          using fin by (simp add: normalized_overflow[OF Some True] vals_replicate_zero)
        with inf False show ?thesis by blast
      next
        case le: False
        then have le': "sqnorm zs \<le> float_max" by simp
        show ?thesis
        proof (cases "sqnorm zs = 0")
          case True
          then have "np_norm a = Fin 0" using le by (simp add: np_norm_def Some)
          then show ?thesis using fin len by (simp add: normalized_zero_norm vals_replicate_nan)
        next
          case nz: False
          have us: "us = map (\<lambda>z. z / complex_of_real (sqrt (sqnorm zs))) zs"
            using fin by (simp add: normalized_finite[OF Some nz le'])
          have pos: "0 < sqnorm zs" using nz sqnorm_nonneg[of zs] by simp
          have "sqnorm us = 1" using pos by (simp add: us sqnorm_scale)
          moreover have "us \<noteq> []" using False vals_Some_map[OF Some] by (simp add: us)
          ultimately show ?thesis using Some nz False le' by blast
        qed
      qed
    qed
  qed
qed

subsection \<open>Entropy and registration\<close>


lemma nan_in_map2_add:
  "CNaN \<in> set xs \<Longrightarrow> length ys = length xs \<Longrightarrow> CNaN \<in> set (map2 cv_add xs ys)"
proof (induction xs arbitrary: ys)
  case Nil
  then show ?case by simp
next
  case (Cons x xs)
  then obtain y ys' where ys: "ys = y # ys'" by (cases ys) auto
  show ?case
  proof (cases "x = CNaN")
    case True
    then show ?thesis by (simp add: ys)
  next
    case False
    then have "CNaN \<in> set xs" using Cons.prems(1) by auto
    then have "CNaN \<in> set (map2 cv_add xs ys')" using Cons.IH Cons.prems(2) ys by simp
    then show ?thesis by (simp add: ys)
  qed
qed

lemma length_add_noise [simp]: "length (flatten (add_noise noise w)) = length (flatten w)"
  by (simp add: add_noise_def)

lemma add_noise_Nil_iff [simp]: "flatten (add_noise noise w) = [] \<longleftrightarrow> flatten w = []"
  using length_add_noise[of noise w] by (simp only: length_0_conv[symmetric])

lemma length_normalized [simp]: "length (flatten (normalized a)) = length (flatten a)"
  by (simp add: normalized_def)

lemma normalized_Nil_iff [simp]: "flatten (normalized a) = [] \<longleftrightarrow> flatten a = []"
  using length_normalized[of a] by (simp only: length_0_conv[symmetric])

lemma entropy_unfold:
  "calculate_entanglement_entropy noise w =
     (case eigvals_outer (flatten (normalized (add_noise noise w))) of
        Inl e \<Rightarrow> Inl e
      | Inr ev \<Rightarrow> Inr (Fin (- sum_list (map (\<lambda>x. x * log 2 (x + 1 / 10 ^ 10))
                   (filter (\<lambda>x. x > 1 / 10 ^ 10) (map Re ev))))))"
  by (simp only: calculate_entanglement_entropy_def add_noise_def Let_def)

lemma add_noise_nan:
  assumes "vals (flatten w) = None"
  shows "vals (flatten (add_noise noise w)) = None"
proof -
  have "CNaN \<in> set (flatten w)" using assms by (simp add: vals_None_iff)
  then have "CNaN \<in> set (map2 cv_add (flatten w)
      (map (\<lambda>k. Val (complex_of_real (noise k))) [0..<length (flatten w)]))"
    by (rule nan_in_map2_add) simp
  then have "CNaN \<in> set (flatten (add_noise noise w))"
    by (simp only: add_noise_def flatten_reshaped)
  then show ?thesis by (simp add: vals_None_iff)
qed

lemma entropy_nan:
  assumes "vals (flatten w) = None"
  shows "calculate_entanglement_entropy noise w = Inl LinAlgError"
proof -
  have nn: "vals (flatten (add_noise noise w)) = None" using assms by (rule add_noise_nan)
  then have norm: "np_norm (add_noise noise w) = NaN" by (simp add: np_norm_def)
  have "flatten w \<noteq> []" using assms by auto
  then have "length (flatten (add_noise noise w)) \<noteq> 0" by simp
  then have "vals (flatten (normalized (add_noise noise w))) = None"
    using normalized_nan[OF norm] by (simp add: vals_replicate_nan)
  then show ?thesis by (simp add: entropy_unfold eigvals_outer_def)
qed

lemma filter_unit_spectrum:
  "filter (\<lambda>x. x > 1 / 10 ^ 10) (map Re (complex_of_real 1 # replicate n 0)) = [1::real]"
  by (induction n) simp_all

lemma filter_zero_spectrum:
  "filter (\<lambda>x. x > 1 / 10 ^ 10) (map Re (complex_of_real 0 # replicate n 0)) = ([]::real list)"
  by (induction n) simp_all

lemma entropy_value:
  assumes "calculate_entanglement_entropy noise w = Inr s"
  shows "(flatten w = [] \<and> s = Fin 0) \<or>
         (flatten w \<noteq> [] \<and> np_norm (add_noise noise w) = PInf \<and> s = Fin 0) \<or>
         (flatten w \<noteq> [] \<and> np_norm (add_noise noise w) \<noteq> PInf \<and>
          s = Fin (- log 2 (1 + 1 / 10 ^ 10)))"
proof (cases "vals (flatten (normalized (add_noise noise w)))")
  case None
  then show ?thesis using assms by (simp add: entropy_unfold eigvals_outer_def)
next
  case (Some us)
  from normalized_vals[OF Some] consider
      (empty) "flatten (add_noise noise w) = [] \<and> us = []"
    | (unit) "flatten (add_noise noise w) \<noteq> [] \<and>
        (\<exists>zs. vals (flatten (add_noise noise w)) = Some zs \<and> sqnorm zs \<noteq> 0 \<and>
              sqnorm zs \<le> float_max \<and> sqnorm us = 1 \<and> us \<noteq> [])"
    | (inf) "flatten (add_noise noise w) \<noteq> [] \<and> np_norm (add_noise noise w) = PInf \<and>
        us = replicate (length (flatten (add_noise noise w))) 0"
    by blast
  then show ?thesis
  proof cases
    case empty
    then have "flatten w = []" by simp
    moreover have "s = Fin 0"
      using assms empty Some by (simp add: entropy_unfold eigvals_outer_def)
    ultimately show ?thesis by blast
  next
    case unit
    then have u: "sqnorm us = 1" "us \<noteq> []" by auto
    have ne: "flatten w \<noteq> []" using unit by simp
    have "np_norm (add_noise noise w) \<noteq> PInf" using unit by (auto simp: np_norm_def)
    moreover have "s = Fin (- log 2 (1 + 1 / 10 ^ 10))"
      using assms Some u by (simp add: entropy_unfold eigvals_outer_def filter_unit_spectrum)
    ultimately show ?thesis using ne by blast
  next
    case inf
    have ne: "flatten w \<noteq> []" using inf by simp
    then have n0: "length (flatten w) \<noteq> 0" by simp
    have us: "us = replicate (length (flatten w)) 0" using inf by simp
    have "s = Fin 0"
      using assms Some n0 by (simp add: entropy_unfold eigvals_outer_def us filter_zero_spectrum)
    with ne inf show ?thesis by blast
  qed
qed

lemma log_eps_pos: "0 < log 2 (1 + 1 / 10 ^ 10 :: real)"
  by simp

lemma make_state_finite:
  assumes "make_state fw noise w = Inr q"
  shows "vals (flatten w) \<noteq> None"
proof
  assume "vals (flatten w) = None"
  then have "calculate_entanglement_entropy noise w = Inl LinAlgError" by (rule entropy_nan)
  then show False using assms by (simp add: make_state_def Let_def)
qed

lemma make_state_fields:
  assumes "make_state fw noise w = Inr q"
  shows "wavefunction q = w"
    and "calculate_entanglement_entropy noise w = Inr (entanglement_entropy q)"
  using assms by (auto simp: make_state_def Let_def split: sum.splits)

lemma make_state_nan:
  "vals (flatten w) = None \<Longrightarrow> make_state fw noise w = Inl LinAlgError"
  by (simp add: make_state_def Let_def entropy_nan)

lemma create_unfold:
  "create_quantum_state fw noise sid w =
     (case make_state fw noise (normalized w) of
        Inl e \<Rightarrow> (Inl e, fw)
      | Inr q \<Rightarrow> (Inr q, fw\<lparr> quantum_states := AList.update sid q (quantum_states fw) \<rparr>))"
  by (simp add: create_quantum_state_def Let_def)

lemma create_success:
  assumes "create_quantum_state fw noise sid w = (Inr q, fw')"
  shows "make_state fw noise (normalized w) = Inr q"
    and "fw' = fw\<lparr> quantum_states := AList.update sid q (quantum_states fw) \<rparr>"
  using assms by (auto simp: create_unfold split: sum.splits)

lemma create_failure:
  assumes "create_quantum_state fw noise sid w = (Inl e, fw')"
  shows "fw' = fw"
  using assms by (auto simp: create_unfold split: sum.splits)

lemma create_zero_norm:
  assumes "flatten w \<noteq> []" and "np_norm w = Fin 0"
  shows "create_quantum_state fw noise sid w = (Inl LinAlgError, fw)"
proof -
  have "length (flatten w) \<noteq> 0" using assms(1) by simp
  then have "vals (flatten (normalized w)) = None"
    using normalized_zero_norm[OF assms(2)] by (simp add: vals_replicate_nan)
  then show ?thesis by (simp add: create_unfold make_state_nan)
qed

text \<open>A stored wavefunction that has entries is a unit vector.\<close>

lemma make_state_normalized_unit:
  assumes "make_state fw noise (normalized a) = Inr q" and "flatten a \<noteq> []"
    and "np_norm a \<noteq> PInf"
  shows "np_norm (wavefunction q) = Fin 1"
proof -
  obtain us where us: "vals (flatten (normalized a)) = Some us"
    using make_state_finite[OF assms(1)] by auto
  from normalized_vals[OF us] assms(2,3)
  obtain zs where "vals (flatten a) = Some zs" "sqnorm zs \<noteq> 0" "sqnorm zs \<le> float_max"
    by auto
  then have "np_norm (normalized a) = Fin 1" by (rule normalized_unit)
  then show ?thesis using make_state_fields(1)[OF assms(1)] by simp
qed

lemma map_of_update_same: "map_of (AList.update k v al) k = Some v"
  by (simp add: update_conv')

lemma length_update_present:
  "k \<in> fst ` set al \<Longrightarrow> length (AList.update k v al) = length al"
  by (induction al) auto

subsection \<open>Registered states\<close>


lemma normalized_ex: "normalized (Vec [Val 2]) = Vec [Val 1]"
  by (simp add: normalized_def np_norm_def)

lemma normalized_one: "normalized (Vec [Val 1]) = Vec [Val 1]"
  by (simp add: normalized_def np_norm_def)

lemma coherence_one: "spc_calculate_coherence (Vec [Val 1]) = Fin 1"
  by (simp add: spc_calculate_coherence_def np_outer_def matmul_def column_def np_trace_def
      cv_dot_def cv_sum_def)

lemma entropy_one:
  "calculate_entanglement_entropy (\<lambda>_. 0) (Vec [Val 1]) = Inr (Fin (- log 2 (1 + 1 / 10 ^ 10)))"
  by (simp add: entropy_unfold add_noise_def normalized_one eigvals_outer_def)

lemma fidelity_one: "calculate_ethical_fidelity fw_ex (Vec [Val 1]) = Inr (Fin 1)"
  by (simp add: calculate_ethical_fidelity_def fw_ex_def np_vdot_def cv_dot_def cv_sum_def
      np_norm_def)

lemma fidelity_one': "calculate_ethical_fidelity fw_ex1 (Vec [Val 1]) = Inr (Fin 1)"
  by (simp add: calculate_ethical_fidelity_def fw_ex1_def fw_ex_def np_vdot_def cv_dot_def cv_sum_def
      np_norm_def)

lemma make_state_ex: "make_state fw_ex (\<lambda>_. 0) (Vec [Val 1]) = Inr q_ex"
  by (simp add: make_state_def coherence_one entropy_one fidelity_one q_ex_def)

lemma make_state_ex1: "make_state fw_ex1 (\<lambda>_. 0) (Vec [Val 1]) = Inr q_ex"
  by (simp add: make_state_def coherence_one entropy_one fidelity_one' q_ex_def)

lemma store_ex: "fw_ex\<lparr> quantum_states := AList.update ''psi'' q_ex (quantum_states fw_ex) \<rparr> = fw_ex1"
  by (simp add: fw_ex1_def fw_ex_def)

lemma store_ex1: "fw_ex1\<lparr> quantum_states := AList.update ''psi'' q_ex (quantum_states fw_ex1) \<rparr> = fw_ex1"
  by (simp add: fw_ex1_def fw_ex_def)

lemma create_ex: "create_quantum_state fw_ex (\<lambda>_. 0) ''psi'' (Vec [Val 2]) = (Inr q_ex, fw_ex1)"
  by (simp add: create_unfold normalized_ex make_state_ex store_ex)

lemma create_ex1: "create_quantum_state fw_ex1 (\<lambda>_. 0) ''psi'' (Vec [Val 2]) = (Inr q_ex, fw_ex1)"
  by (simp add: create_unfold normalized_ex make_state_ex1 store_ex1)

lemma power_one_matrix: "((\<lambda>p. cmat_mul 1 p [[1]]) ^^ n) [[1]] = [[1]]"
  by (induction n) (simp_all add: cmat_mul_def)

lemma evolve_unfold:
  assumes "map_of (quantum_states fw) sid = Some cur" and "0 \<le> dimension fw"
    and "apply_operator (nat (dimension fw))
           (matrix_power (nat (dimension fw)) (step_matrix (nat (dimension fw)) h t) 1000)
           (wavefunction cur) = Inr a"
    and "make_state fw noise (normalized a) = Inr q"
  shows "evolve_quantum_state fw noise sid h t =
           (Inr q, fw\<lparr> quantum_states := AList.update sid q (quantum_states fw) \<rparr>)"
  using assms by (simp add: evolve_quantum_state_def Let_def)

lemma evolve_ex:
  "evolve_quantum_state fw_ex1 (\<lambda>_. 0) ''psi'' (\<lambda>_ _. 0) 1 = (Inr q_ex, fw_ex1)"
proof -
  have sm: "step_matrix 1 (\<lambda>_ _. 0) 1 = [[1]]" by (simp add: step_matrix_def)
  have ey: "eye 1 = [[1]]" by (simp add: eye_def)
  have op: "matrix_power 1 (step_matrix 1 (\<lambda>_ _. 0) 1) 1000 = [[1]]"
    by (simp only: matrix_power_def sm ey power_one_matrix)
  have ap: "apply_operator 1 [[1]] (Vec [Val 1]) = Inr (Vec [Val 1])"
    by (simp add: cv_dot_def cv_sum_def)
  have st: "map_of (quantum_states fw_ex1) ''psi'' = Some q_ex"
    by (simp add: fw_ex1_def)
  have wf: "wavefunction q_ex = Vec [Val 1]" by (simp add: q_ex_def)
  have d: "0 \<le> dimension fw_ex1" and nd: "nat (dimension fw_ex1) = 1"
    by (simp_all add: fw_ex1_def fw_ex_def)
  have ap': "apply_operator (nat (dimension fw_ex1))
      (matrix_power (nat (dimension fw_ex1)) (step_matrix (nat (dimension fw_ex1)) (\<lambda>_ _. 0) 1) 1000)
      (wavefunction q_ex) = Inr (Vec [Val 1])"
    by (simp only: nd op wf ap)
  have ms: "make_state fw_ex1 (\<lambda>_. 0) (normalized (Vec [Val 1])) = Inr q_ex"
    by (simp only: normalized_one make_state_ex1)
  show ?thesis using evolve_unfold[OF st d ap' ms] by (simp only: store_ex1)
qed

lemma evolve_success:
  assumes "evolve_quantum_state fw noise sid h t = (Inr q, fw')"
  shows "\<exists>a. make_state fw noise (normalized a) = Inr q"
    and "fw' = fw\<lparr> quantum_states := AList.update sid q (quantum_states fw) \<rparr>"
  using assms
  by (auto simp: evolve_quantum_state_def Let_def split: option.splits if_splits sum.splits)

text \<open>
  While the sum of squares stays in the range of doubles, a stored wavefunction that has
  entries is a unit vector.
\<close>

lemma stored_unit:
  assumes "make_state fw noise (normalized a) = Inr q" and "flatten (wavefunction q) \<noteq> []"
    and "np_norm a \<noteq> PInf"
  shows "np_norm (wavefunction q) = Fin 1"
proof -
  have "wavefunction q = normalized a" using assms(1) by (rule make_state_fields(1))
  then have "flatten a \<noteq> []" using assms(2) by simp
  with assms(1) show ?thesis using assms(3) by (rule make_state_normalized_unit)
qed

lemma create_stored_unit:
  assumes "create_quantum_state fw noise sid w = (Inr q, fw')" and "flatten w \<noteq> []"
    and "np_norm w \<noteq> PInf"
  shows "map_of (quantum_states fw') sid = Some q" and "np_norm (wavefunction q) = Fin 1"
proof -
  show "map_of (quantum_states fw') sid = Some q"
    using create_success(2)[OF assms(1)] by (simp add: update_conv')
  show "np_norm (wavefunction q) = Fin 1"
    using create_success(1)[OF assms(1)] assms(2,3) by (rule make_state_normalized_unit)
qed

text \<open>The registration of a vector whose sum of squares overflows.\<close>

lemma float_max_lt_big: "float_max < 10 ^ 400"
proof -
  have "float_max \<le> 2 * 2 ^ 1023"
    unfolding float_max_def by (intro mult_right_mono) simp_all
  also have "\<dots> = (2::real) ^ 1024" by (simp only: power_Suc[symmetric]) simp
  also have "\<dots> \<le> (2::real) ^ (3 * 400)" by (intro power_increasing) simp_all
  also have "\<dots> = ((2::real) ^ 3) ^ 400" by (rule power_mult)
  also have "\<dots> < 10 ^ 400" by (intro power_strict_mono) simp_all
  finally show ?thesis .
qed

lemma sqnorm_big: "sqnorm [10 ^ 200, 0, 0, 0] = 10 ^ 400"
proof -
  have "(cmod (10 ^ 200))\<^sup>2 = (10 ^ 200)\<^sup>2" by (simp only: norm_power norm_numeral)
  also have "\<dots> = (10::real) ^ (200 * 2)" by (rule power_mult[symmetric])
  finally have e: "(cmod (10 ^ 200))\<^sup>2 = 10 ^ 400" by (simp only: mult_2_right) simp
  have "sqnorm [10 ^ 200, 0, 0, 0] = (cmod (10 ^ 200))\<^sup>2 + 0"
    unfolding sqnorm_def by (simp only: list.map sum_list.Cons sum_list.Nil norm_zero) simp
  then show ?thesis by (simp only: e add_0_right)
qed

lemma norm_big: "np_norm big4 = PInf"
proof -
  have v: "vals (flatten big4) = Some [10 ^ 200, 0, 0, 0]" 
    by (simp only: big4_def flatten.simps vals.simps option.map)
  have "float_max < sqnorm [10 ^ 200, 0, 0, 0]" by (simp only: sqnorm_big float_max_lt_big)
  with v show ?thesis unfolding np_norm_PInf by blast
qed

lemma normalized_big: "normalized big4 = zeros4"
  unfolding normalized_def norm_big
  by (simp only: big4_def zeros4_def flatten.simps reshaped.simps list.map cv_div_norm.simps)

lemma coherence_zeros4: "spc_calculate_coherence zeros4 = Fin 0"
  by (simp add: zeros4_def spc_calculate_coherence_def np_outer_def matmul_def column_def
      np_trace_def cv_dot_def cv_sum_def upt4)

lemma sqrt_small: "sqrt (1 / 10000) = 1 / 100"
  using real_sqrt_abs[of "1 / 100"] by (simp add: power2_eq_square)

lemma add_noise_zeros4:
  "add_noise noise_small zeros4 = Vec [Val (1 / 100), Val 0, Val 0, Val 0]"
  by (simp add: add_noise_def zeros4_def noise_small_def upt4)

lemma np_norm_in_range:
  "vals (flatten a) = Some zs \<Longrightarrow> sqnorm zs = s \<Longrightarrow> s \<le> float_max \<Longrightarrow> np_norm a = Fin (sqrt s)"
  by (auto simp: np_norm_def)

lemma norm_noise: "np_norm (Vec [Val (1 / 100), Val 0, Val 0, Val 0]) = Fin (1 / 100)"
proof -
  have v: "vals (flatten (Vec [Val (1 / 100), Val 0, Val 0, Val 0])) = Some [1 / 100, 0, 0, 0]"
    by simp
  have s: "sqnorm [1 / 100, 0, 0, 0] = 1 / 10000" by (simp add: sqnorm_def power2_eq_square)
  have le: "1 / 10000 \<le> float_max" using float_max_ge by linarith
  show ?thesis using np_norm_in_range[OF v s le] by (simp only: sqrt_small)
qed

lemma normalized_noise:
  "normalized (Vec [Val (1 / 100), Val 0, Val 0, Val 0]) = Vec [Val 1, Val 0, Val 0, Val 0]"
  unfolding normalized_def norm_noise by simp

lemma entropy_zeros4:
  "calculate_entanglement_entropy noise_small zeros4 = Inr (Fin (- log 2 (1 + 1 / 10 ^ 10)))"
  by (simp add: entropy_unfold add_noise_zeros4 normalized_noise eigvals_outer_def)

lemma fw_half_eq:
  "fw_half = \<lparr> dimension = 2, quantum_states = [],
     spc_ethical_constraints = spc_ethical_constraints fw_half,
     consciousness_field = Some (Mat 2 2 [Val (1 / 2), Val (1 / 2), Val (1 / 2), Val (1 / 2)]) \<rparr>"
  by (simp add: fw_half_def SPCFramework_init_def initialize_consciousness_field_def
      initialize_ethical_constraints_def Let_def normalized_def np_norm_def upt_rec
      numeral_eq_Suc power2_eq_square)

lemma fidelity_zeros4: "calculate_ethical_fidelity fw_half zeros4 = Inr NaN"
  by (subst fw_half_eq)
     (simp add: calculate_ethical_fidelity_def zeros4_def np_vdot_def cv_dot_def cv_sum_def
        np_norm_def power2_eq_square)

lemma make_state_big: "make_state fw_half noise_small zeros4 = Inr q_big"
  by (simp add: make_state_def coherence_zeros4 entropy_zeros4 fidelity_zeros4 q_big_def)

lemma states_half: "quantum_states fw_half = []"
  by (subst fw_half_eq) simp

text \<open>
  C4. The claim: every record stored holds a unit vector, whatever the norm of the vector
  supplied. The code divides by the norm without looking at it. For the vector
  \<open>[1e200, 0, 0, 0]\<close> the sum of squares overflows and the norm is \<open>inf\<close>; every entry
  divided by it is \<open>0.0\<close>; nothing raises, and the record stored under the id holds the
  zero vector, whose norm is 0 and not 1.
\<close>

theorem C4_overflow_stores_zero:
  "create_quantum_state fw_half noise_small ''A'' big4 =
     (Inr q_big, fw_half\<lparr> quantum_states := [(''A'', q_big)] \<rparr>)
   \<and> wavefunction q_big = Vec [Val 0, Val 0, Val 0, Val 0]
   \<and> np_norm (wavefunction q_big) = Fin 0"
  by (simp add: create_unfold normalized_big make_state_big states_half)
     (simp add: q_big_def zeros4_def np_norm_def)


text \<open>
  C2, as amended. For every id and every vector with at least one entry whose norm is
  exactly zero, \<open>create_quantum_state\<close> raises an exception and stores nothing: the
  registry is unchanged. The exception is NumPy's \<open>LinAlgError\<close>, raised by the
  eigenvalue routine on the \<open>nan\<close> entries that the division by the zero norm produced.
\<close>

theorem C2_zero_vector:
  assumes "flatten w \<noteq> []" and "np_norm w = Fin 0"
  shows "create_quantum_state fw noise sid w = (Inl LinAlgError, fw)"
  using assms by (rule create_zero_norm)

lemma zeros4_props: "flatten zeros4 \<noteq> []" "np_norm zeros4 = Fin 0"
  by (simp_all add: zeros4_def np_norm_def)

theorem C2_zero_vector_witness:
  "flatten zeros4 \<noteq> [] \<and> np_norm zeros4 = Fin 0
   \<and> create_quantum_state fw_ex (\<lambda>_. 0) ''psi'' zeros4 = (Inl LinAlgError, fw_ex)"
  using C2_zero_vector[OF zeros4_props, of fw_ex "\<lambda>_. 0" "''psi''"] zeros4_props by blast

text \<open>
  C2, as stated, fails: registering the zero vector of four entries raises
  \<open>LinAlgError\<close>, which is not the \<open>DegenerateInputError\<close> of the claim.
\<close>

theorem C2_counterexample:
  "create_quantum_state fw_ex (\<lambda>_. 0) ''psi'' zeros4 = (Inl LinAlgError, fw_ex)
   \<and> LinAlgError \<noteq> ''DegenerateInputError''"
  using create_zero_norm[OF zeros4_props, of fw_ex "\<lambda>_. 0" "''psi''"] by simp

lemma make_state_registry:
  "make_state (fw\<lparr> quantum_states := qs \<rparr>) noise w = make_state fw noise w"
proof -
  have eq: "calculate_ethical_fidelity (fw\<lparr> quantum_states := qs \<rparr>) = calculate_ethical_fidelity fw"
    by (simp add: fun_eq_iff calculate_ethical_fidelity_def)
  show ?thesis unfolding make_state_def eq by (rule refl)
qed

lemma create_outcome_registry:
  "fst (create_quantum_state (fw\<lparr> quantum_states := qs \<rparr>) noise sid w)
     = fst (create_quantum_state fw noise sid w)"
  by (simp add: create_unfold make_state_registry split: sum.splits)

text \<open>
  C10. Registering under an id that is already present raises nothing on account of the
  id: the outcome of the call, a record or an exception, is the one that the same call
  has on an empty registry. Whenever the vector can be registered at all, the record is
  overwritten in place: the registry maps the id to the new record and every other id to
  what it held, the ids keep their order, and the number of records is unchanged.
\<close>

theorem C10_overwrite:
  assumes "sid \<in> fst ` set (quantum_states fw)"
  shows "fst (create_quantum_state fw noise sid w)
           = fst (create_quantum_state (fw\<lparr> quantum_states := [] \<rparr>) noise sid w)
       \<and> (fst (create_quantum_state (fw\<lparr> quantum_states := [] \<rparr>) noise sid w) = Inr q \<longrightarrow>
            fst (create_quantum_state fw noise sid w) = Inr q
          \<and> map_of (quantum_states (snd (create_quantum_state fw noise sid w)))
               = (map_of (quantum_states fw))(sid \<mapsto> q)
          \<and> map fst (quantum_states (snd (create_quantum_state fw noise sid w)))
               = map fst (quantum_states fw)
          \<and> length (quantum_states (snd (create_quantum_state fw noise sid w)))
               = length (quantum_states fw))"
proof (intro conjI impI)
  show o: "fst (create_quantum_state fw noise sid w)
      = fst (create_quantum_state (fw\<lparr> quantum_states := [] \<rparr>) noise sid w)"
    by (rule create_outcome_registry[symmetric])
  assume "fst (create_quantum_state (fw\<lparr> quantum_states := [] \<rparr>) noise sid w) = Inr q"
  then show r: "fst (create_quantum_state fw noise sid w) = Inr q" using o by simp
  then have c: "create_quantum_state fw noise sid w =
      (Inr q, fw\<lparr> quantum_states := AList.update sid q (quantum_states fw) \<rparr>)"
    by (auto simp: create_unfold split: sum.splits)
  show "map_of (quantum_states (snd (create_quantum_state fw noise sid w)))
      = (map_of (quantum_states fw))(sid \<mapsto> q)"
    by (simp add: c update_conv')
  show "map fst (quantum_states (snd (create_quantum_state fw noise sid w)))
      = map fst (quantum_states fw)"
    using assms by (simp add: c update_keys)
  show "length (quantum_states (snd (create_quantum_state fw noise sid w)))
      = length (quantum_states fw)"
    using assms by (simp add: c length_update_present)
qed

lemma fw_old_fresh: "fw_old\<lparr> quantum_states := [] \<rparr> = fw_ex"
  by (simp add: fw_old_def fw_ex_def)

theorem C10_overwrite_witness:
  "''psi'' \<in> fst ` set (quantum_states fw_old)
   \<and> fst (create_quantum_state (fw_old\<lparr> quantum_states := [] \<rparr>) (\<lambda>_. 0) ''psi'' (Vec [Val 2]))
       = Inr q_ex
   \<and> fst (create_quantum_state fw_old (\<lambda>_. 0) ''psi'' (Vec [Val 2])) = Inr q_ex
   \<and> map_of (quantum_states (snd (create_quantum_state fw_old (\<lambda>_. 0) ''psi'' (Vec [Val 2]))))
       = (map_of (quantum_states fw_old))(''psi'' \<mapsto> q_ex)
   \<and> map fst (quantum_states (snd (create_quantum_state fw_old (\<lambda>_. 0) ''psi'' (Vec [Val 2]))))
       = map fst (quantum_states fw_old)
   \<and> length (quantum_states (snd (create_quantum_state fw_old (\<lambda>_. 0) ''psi'' (Vec [Val 2]))))
       = length (quantum_states fw_old)"
proof -
  have k: "''psi'' \<in> fst ` set (quantum_states fw_old)" by (simp add: fw_old_def)
  have f: "fst (create_quantum_state (fw_old\<lparr> quantum_states := [] \<rparr>) (\<lambda>_. 0) ''psi'' (Vec [Val 2]))
      = Inr q_ex"
    by (simp only: fw_old_fresh create_ex fst_conv)
  note r = C10_overwrite[OF k, of "\<lambda>_. 0" "Vec [Val 2]" q_ex, THEN conjunct2, rule_format, OF f]
  show ?thesis using r k f by blast
qed

subsection \<open>Construction and initialisation\<close>


lemma SPCFramework_init_neg: "d < 0 \<Longrightarrow> SPCFramework_init frnd d = Inl ValueError"
  by (simp add: SPCFramework_init_def initialize_consciousness_field_def
      initialize_ethical_constraints_def)

lemma SPCFramework_init_ok:
  "0 \<le> d \<Longrightarrow> \<not> isl (SPCFramework_init frnd d) \<and> dimension (projr (SPCFramework_init frnd d)) = d
     \<and> quantum_states (projr (SPCFramework_init frnd d)) = []"
  by (simp add: SPCFramework_init_def initialize_consciousness_field_def
      initialize_ethical_constraints_def Let_def)

lemma arch_init_ok:
  assumes "0 \<le> d"
  shows "\<not> isl (SystemArchitecture_init rnd frnd c a e d)"
    and "fat_tree (projr (SystemArchitecture_init rnd frnd c a e d)) = FatTreeHierarchy_init rnd c a e"
    and "spc_framework (projr (SystemArchitecture_init rnd frnd c a e d)) = projr (SPCFramework_init frnd d)"
  using SPCFramework_init_ok[OF assms, of frnd]
  by (auto simp: SystemArchitecture_init_def Let_def split: sum.splits)

text \<open>
  C9, as amended. The constructor checks nothing itself. A negative node count is
  accepted and gives an empty layer, and a quantum dimension of zero is accepted: for
  every dimension \<open>d \<ge> 0\<close> construction succeeds, with \<open>max(core, 0) + max(agg, 0) +
  max(edge, 0)\<close> nodes. Only a negative dimension fails, with the \<open>ValueError\<close> of
  \<open>np.random.rand\<close>.
\<close>

theorem C9_construction:
  "(d < 0 \<longrightarrow> SystemArchitecture_init rnd frnd c a e d = Inl ValueError)
   \<and> (0 \<le> d \<longrightarrow> \<not> isl (SystemArchitecture_init rnd frnd c a e d)
        \<and> length (nodes (fat_tree (projr (SystemArchitecture_init rnd frnd c a e d))))
            = nat c + nat a + nat e
        \<and> dimension (spc_framework (projr (SystemArchitecture_init rnd frnd c a e d))) = d)"
proof (intro conjI impI)
  assume "d < 0"
  then show "SystemArchitecture_init rnd frnd c a e d = Inl ValueError"
    by (simp add: SystemArchitecture_init_def SPCFramework_init_neg)
next
  assume d: "0 \<le> d"
  show "\<not> isl (SystemArchitecture_init rnd frnd c a e d)" using d by (rule arch_init_ok(1))
  show "length (nodes (fat_tree (projr (SystemArchitecture_init rnd frnd c a e d))))
            = nat c + nat a + nat e"
    by (simp add: arch_init_ok(2)[OF d] nodes_length)
  show "dimension (spc_framework (projr (SystemArchitecture_init rnd frnd c a e d))) = d"
    using SPCFramework_init_ok[OF d, of frnd] by (simp add: arch_init_ok(3)[OF d])
qed

theorem C9_construction_witness:
  "(-1::int) < 0 \<and> SystemArchitecture_init (\<lambda>_ _. 0) (\<lambda>_. 1) 4 8 16 (-1) = Inl ValueError
   \<and> (0::int) \<le> 0 \<and> \<not> isl (SystemArchitecture_init (\<lambda>_ _. 0) (\<lambda>_. 1) (-1) 8 16 0)
   \<and> length (nodes (fat_tree (projr (SystemArchitecture_init (\<lambda>_ _. 0) (\<lambda>_. 1) (-1) 8 16 0)))) = 24"
  using C9_construction[of "-1" "\<lambda>_ _. 0" "\<lambda>_. 1" 4 8 16]
    C9_construction[of 0 "\<lambda>_ _. 0" "\<lambda>_. 1" "-1" 8 16]
  by simp

text \<open>
  C9, as stated, fails: a negative core count, and a quantum dimension of zero, are
  both accepted without any exception.
\<close>

theorem C9_counterexample:
  "\<not> isl (SystemArchitecture_init (\<lambda>_ _. 0) (\<lambda>_. 1) (-1) 8 16 4)
   \<and> \<not> isl (SystemArchitecture_init (\<lambda>_ _. 0) (\<lambda>_. 1) 4 8 16 0)"
  by (simp add: arch_init_ok(1))





lemma char_of_48: "char_of (48::nat) = CHR ''0''"
  by code_simp

lemma str_nat_0: "str_nat 0 = ''0''"
  by (subst str_nat.simps) (simp add: char_of_48)

lemma zero_tree_nodes:
  "nodes (FatTreeHierarchy_init (\<lambda>_ _. 0) 1 1 0) =
     [(''core_0'', new_node (\<lambda>_ _. 0) ''core_0'' ''core'' (0, 0) (95 / 100)),
      (''agg_0'', new_node (\<lambda>_ _. 0) ''agg_0'' ''aggregation'' (1, 0) (90 / 100))]"
  by (simp add: FatTreeHierarchy_init_def build_hierarchy_def create_edges_def py_range_def
      str_nat_0 Let_def)

lemma zero_tree_edges:
  "edges (FatTreeHierarchy_init (\<lambda>_ _. 0) 1 1 0) = [(''core_0'', ''agg_0'')]"
  by (simp add: FatTreeHierarchy_init_def build_hierarchy_def create_edges_def py_range_def
      str_nat_0 Let_def)

lemma rand44_zero: "rand44 (\<lambda>_ _. 0) nid = zeros44"
  by (simp add: rand44_def zeros44_def upt_rec numeral_eq_Suc)

lemma zeros44_props: "flatten zeros44 \<noteq> []" "np_norm zeros44 = Fin 0"
  by (simp_all add: zeros44_def np_norm_def numeral_eq_Suc)

lemma zero_arch_tree: "fat_tree zero_arch = FatTreeHierarchy_init (\<lambda>_ _. 0) 1 1 0"
  by (simp add: zero_arch_def arch_init_ok(2))

lemma zero_arch_states: "quantum_states (spc_framework zero_arch) = []"
  using SPCFramework_init_ok[of 4 "\<lambda>_. 1"] by (simp add: zero_arch_def arch_init_ok(3))


subsection \<open>Synchronisation\<close>


lemma in_unit_Fin [simp]: "in_unit (Fin r) \<longleftrightarrow> 0 \<le> r \<and> r \<le> 1"
  by (simp add: in_unit_def)

lemma clip_unit: "np_clip x 0 1 = NaN \<or> in_unit (np_clip x 0 1)"
  by (cases x) simp_all

lemma fidelity_unit:
  "calculate_sync_fidelity node1 node2 = Inr f \<Longrightarrow> f = NaN \<or> in_unit f"
  using clip_unit
  by (auto simp: calculate_sync_fidelity_def Let_def split: option.splits sum.splits)

lemma acc_ok_step:
  assumes "acc_ok t n" and "f = NaN \<or> in_unit f"
  shows "acc_ok (fl_add t f) (Suc n)"
  using assms by (cases t; cases f) (auto simp: acc_ok_def in_unit_def)

lemma acc_ok_mean:
  assumes "acc_ok t n" and "0 < n"
  shows "fl_div t (Fin (real n)) = NaN \<or> in_unit (fl_div t (Fin (real n)))"
  using assms by (cases t) (auto simp: acc_ok_def divide_le_eq)

lemma sync_loop_ok:
  "acc_ok t n \<Longrightarrow> sync_loop ns es t n = Inr (t', n') \<Longrightarrow> acc_ok t' n' \<and> n' = n + length es"
proof (induction es arbitrary: t n)
  case Nil
  then show ?case by simp
next
  case (Cons edge es)
  from Cons.prems(2) obtain node1 node2 f where
    f: "calculate_sync_fidelity node1 node2 = Inr f"
    and rest: "sync_loop ns es (fl_add t f) (n + 1) = Inr (t', n')"
    by (auto split: option.splits sum.splits)
  have "acc_ok (fl_add t f) (n + 1)"
    using acc_ok_step[OF Cons.prems(1) fidelity_unit[OF f]] by simp
  from Cons.IH[OF this rest] show ?case by auto
qed

lemma synchronize_layers_unit:
  assumes "synchronize_layers h = Inr ts"
  shows "ts = NaN \<or> in_unit ts" and "edges h = [] \<Longrightarrow> ts = Fin 0"
proof -
  obtain t n where l: "sync_loop (nodes h) (edges h) (Fin 0) 0 = Inr (t, n)"
    and ts: "ts = (if n > 0 then fl_div t (Fin (real n)) else Fin 0)"
    using assms by (auto simp: synchronize_layers_def split: sum.splits)
  have "acc_ok (Fin 0) 0" by (simp add: acc_ok_def)
  from sync_loop_ok[OF this l] have ok: "acc_ok t n" and n: "n = length (edges h)" by auto
  show "ts = NaN \<or> in_unit ts"
    using acc_ok_mean[OF ok] ts by (cases "n > 0") simp_all
  show "edges h = [] \<Longrightarrow> ts = Fin 0" using n ts by simp
qed

lemma foldl_acc_ok:
  "acc_ok t n \<Longrightarrow> \<forall>x \<in> set xs. x = NaN \<or> in_unit x \<Longrightarrow>
   acc_ok (foldl fl_add t xs) (n + length xs)"
proof (induction xs arbitrary: t n)
  case Nil
  then show ?case by simp
next
  case (Cons x xs)
  have "acc_ok (fl_add t x) (Suc n)" using Cons.prems by (intro acc_ok_step) simp_all
  from Cons.IH[OF this] Cons.prems(2) show ?case by simp
qed

lemma average_unit:
  assumes "\<forall>x \<in> set xs. x = NaN \<or> in_unit x"
  shows "average xs = NaN \<or> in_unit (average xs)"
proof (cases "xs = []")
  case True
  then show ?thesis by (simp add: average_def)
next
  case False
  have "acc_ok (Fin 0) 0" by (simp add: acc_ok_def)
  from foldl_acc_ok[OF this assms] have "acc_ok (fl_sum xs) (length xs)"
    by (simp add: fl_sum_def)
  then show ?thesis using False acc_ok_mean[of "fl_sum xs" "length xs"] by (simp add: average_def)
qed

lemma average_Nil [simp]: "average [] = Fin 0"
  by (simp add: average_def)

lemma integration_unit:
  "get_consciousness_integration fw sid = Inr c \<Longrightarrow> c = NaN \<or> in_unit c"
  using clip_unit
  by (auto simp: get_consciousness_integration_def split: option.splits sum.splits)

lemma consciousness_loop_unit:
  "consciousness_loop fw ids = Inr cs \<Longrightarrow> \<forall>c \<in> set cs. c = NaN \<or> in_unit c"
proof (induction ids arbitrary: cs)
  case Nil
  then show ?case by simp
next
  case (Cons sid ids)
  from Cons.prems obtain c cs' where c: "get_consciousness_integration fw sid = Inr c"
    and r: "consciousness_loop fw ids = Inr cs'" and cs: "cs = c # cs'"
    by (auto split: sum.splits)
  show ?case using integration_unit[OF c] Cons.IH[OF r] cs by auto
qed

lemma overall_unit:
  assumes "a = NaN \<or> in_unit a" and "b = NaN \<or> in_unit b" and "c = NaN \<or> in_unit c"
  shows "fl_div (fl_add (fl_add a b) c) (Fin 3) = NaN
       \<or> in_unit (fl_div (fl_add (fl_add a b) c) (Fin 3))"
  using assms by (cases a; cases b; cases c) (auto simp: in_unit_def)

lemma ethical_scores_unit: "\<forall>x \<in> set (ethical_scores fw). x = NaN \<or> in_unit x"
  by (auto simp: ethical_scores_def)

lemma synchronize_system_unfold:
  assumes "synchronize_system arch = (Inr v, arch')"
  shows "\<exists>ts cs. synchronize_layers (fat_tree arch) = Inr ts
          \<and> consciousness_loop (spc_framework arch)
               (map fst (quantum_states (spc_framework arch))) = Inr cs
          \<and> v = fl_div (fl_add (fl_add ts (average (ethical_scores (spc_framework arch))))
                    (average cs)) (Fin 3)"
  using assms
  by (auto simp: synchronize_system_def Let_def ethical_scores_def split: sum.splits)

text \<open>
  When \<open>synchronize_system\<close> returns, its value is the unweighted average of the mean
  edge fidelity, the mean constraint pass rate and the mean integration; a component over
  an empty set (no edges, no records) is 0; and the value lies in \<open>[0, 1]\<close> unless it is
  \<open>nan\<close>.
\<close>

lemma synchronize_system_range:
  assumes "synchronize_system arch = (Inr v, arch')"
  shows "(\<exists>ts cs. synchronize_layers (fat_tree arch) = Inr ts
          \<and> consciousness_loop (spc_framework arch)
               (map fst (quantum_states (spc_framework arch))) = Inr cs
          \<and> v = fl_div (fl_add (fl_add ts (average (ethical_scores (spc_framework arch))))
                    (average cs)) (Fin 3)
          \<and> (edges (fat_tree arch) = [] \<longrightarrow> ts = Fin 0)
          \<and> (quantum_states (spc_framework arch) = [] \<longrightarrow>
                average (ethical_scores (spc_framework arch)) = Fin 0 \<and> average cs = Fin 0))
       \<and> (v \<noteq> NaN \<longrightarrow> in_unit v)"
proof -
  from synchronize_system_unfold[OF assms] obtain ts cs where
    ts: "synchronize_layers (fat_tree arch) = Inr ts"
    and cs: "consciousness_loop (spc_framework arch)
               (map fst (quantum_states (spc_framework arch))) = Inr cs"
    and v: "v = fl_div (fl_add (fl_add ts (average (ethical_scores (spc_framework arch))))
                    (average cs)) (Fin 3)"
    by blast
  have e0: "edges (fat_tree arch) = [] \<longrightarrow> ts = Fin 0"
    using synchronize_layers_unit(2)[OF ts] by simp
  have q0: "quantum_states (spc_framework arch) = [] \<longrightarrow>
      average (ethical_scores (spc_framework arch)) = Fin 0 \<and> average cs = Fin 0"
    using cs by (auto simp: ethical_scores_def)
  have "v = NaN \<or> in_unit v"
    unfolding v
    by (intro overall_unit synchronize_layers_unit(1)[OF ts] average_unit ethical_scores_unit
        consciousness_loop_unit[OF cs])
  with ts cs v e0 q0 show ?thesis by blast
qed


lemma sqrt16: "sqrt 16 = 4"
  using real_sqrt_abs[of 4] by simp

lemma zero_fidelity:
  assumes "quantum_state node1 = Some zeros44" and "quantum_state node2 = Some zeros44"
  shows "calculate_sync_fidelity node1 node2 = Inr NaN"
  using assms
  by (simp add: calculate_sync_fidelity_def zeros44_def
      np_trace_def matmul_T_def rows_of_def cv_dot_def cv_sum_def np_norm_def sqnorm_def upt4
      numeral_eq_Suc)

lemma zero_sync: "synchronize_layers (fat_tree zero_arch) = Inr NaN"
proof -
  have "calculate_sync_fidelity (new_node (\<lambda>_ _. 0) a b c d) (new_node (\<lambda>_ _. 0) a' b' c' d') = Inr NaN"
    for a b c d a' b' c' d'
    by (rule zero_fidelity) (simp_all add: new_node_def rand44_zero)
  then show ?thesis
    by (simp add: synchronize_layers_def zero_arch_tree zero_tree_nodes zero_tree_edges)
qed

lemma ones_tree_nodes:
  "nodes (FatTreeHierarchy_init (\<lambda>_ _. 1) 1 1 0) =
     [(''core_0'', new_node (\<lambda>_ _. 1) ''core_0'' ''core'' (0, 0) (95 / 100)),
      (''agg_0'', new_node (\<lambda>_ _. 1) ''agg_0'' ''aggregation'' (1, 0) (90 / 100))]"
  by (simp add: FatTreeHierarchy_init_def build_hierarchy_def create_edges_def py_range_def
      str_nat_0 Let_def)

lemma ones_tree_edges:
  "edges (FatTreeHierarchy_init (\<lambda>_ _. 1) 1 1 0) = [(''core_0'', ''agg_0'')]"
  by (simp add: FatTreeHierarchy_init_def build_hierarchy_def create_edges_def py_range_def
      str_nat_0 Let_def)

lemma rand44_one: "rand44 (\<lambda>_ _. 1) nid = ones44"
  by (simp add: rand44_def ones44_def upt_rec numeral_eq_Suc)

lemma ones_fidelity:
  assumes "quantum_state node1 = Some ones44" and "quantum_state node2 = Some ones44"
  shows "calculate_sync_fidelity node1 node2 = Inr (Fin 1)"
  using assms
  by (simp add: calculate_sync_fidelity_def ones44_def
      np_trace_def matmul_T_def rows_of_def cv_dot_def cv_sum_def np_norm_def sqnorm_def upt4
      numeral_eq_Suc sqrt16)

lemma ones_arch_tree: "fat_tree ones_arch = FatTreeHierarchy_init (\<lambda>_ _. 1) 1 1 0"
  by (simp add: ones_arch_def arch_init_ok(2))

lemma ones_arch_states: "quantum_states (spc_framework ones_arch) = []"
  using SPCFramework_init_ok[of 4 "\<lambda>_. 1"] by (simp add: ones_arch_def arch_init_ok(3))

lemma ones_sync: "synchronize_layers (fat_tree ones_arch) = Inr (Fin 1)"
proof -
  have "calculate_sync_fidelity (new_node (\<lambda>_ _. 1) a b c d) (new_node (\<lambda>_ _. 1) a' b' c' d') = Inr (Fin 1)"
    for a b c d a' b' c' d'
    by (rule ones_fidelity) (simp_all add: new_node_def rand44_one)
  then show ?thesis
    by (simp add: synchronize_layers_def ones_arch_tree ones_tree_nodes ones_tree_edges)
qed

lemma ones_synchronize:
  "synchronize_system ones_arch =
     (Inr (Fin (1 / 3)),
      ones_arch\<lparr> system_state := (system_state ones_arch)
         \<lparr> synchronization_fidelity := Fin 1, ethical_compliance := Fin 0,
           consciousness_integration := Fin 0 \<rparr> \<rparr>)"
  by (simp add: synchronize_system_def ones_sync ones_arch_states ethical_scores_def Let_def)

text \<open>The mean of a list that is not empty is its sum divided by its length.\<close>

lemma average_single: "average [Fin a] = Fin a"
  by (simp add: average_def fl_sum_def)

lemma average_pair: "average [Fin a, Fin b] = Fin ((a + b) / 2)"
  by (simp add: average_def fl_sum_def)

text \<open>A system whose core node holds the zero matrix.\<close>

lemma tree_nodes_11:
  "nodes (FatTreeHierarchy_init rnd 1 1 0) =
     [(''core_0'', new_node rnd ''core_0'' ''core'' (0, 0) (95 / 100)),
      (''agg_0'', new_node rnd ''agg_0'' ''aggregation'' (1, 0) (90 / 100))]"
  by (simp add: FatTreeHierarchy_init_def build_hierarchy_def create_edges_def py_range_def
      str_nat_0 Let_def)

lemma tree_edges_11:
  "edges (FatTreeHierarchy_init rnd 1 1 0) = [(''core_0'', ''agg_0'')]"
  by (simp add: FatTreeHierarchy_init_def build_hierarchy_def create_edges_def py_range_def
      str_nat_0 Let_def)

lemma upt16: "[0..<16] = [0, 1, 2, 3, 4, 5, 6, 7, 8, 9, 10, 11, 12, 13, 14, 15]"
  by (simp add: upt_rec)

lemma trace_zero_rand: "trace_matmul_T zeros44 (rand44 rnd nid) = Inr (Val 0)"
  by (simp add: zeros44_def rand44_def upt16 np_trace_def matmul_T_def rows_of_def cv_dot_def
      cv_sum_def upt4 numeral_eq_Suc)

lemma zero_state_fidelity:
  assumes "quantum_state node1 = Some zeros44" and "quantum_state node2 = Some (rand44 rnd nid)"
  shows "calculate_sync_fidelity node1 node2 = Inr NaN"
proof -
  have z: "np_norm zeros44 = Fin 0" by (rule zeros44_props(2))
  have "fl_div (Fin 0) (fl_mul (Fin 0) x) = NaN" for x
    by (cases x) simp_all
  then show ?thesis
    using assms by (simp add: calculate_sync_fidelity_def trace_zero_rand z)
qed

lemma zeroed_arch_nodes:
  "nodes (fat_tree (zeroed_arch rnd frnd)) =
     [(''core_0'', (new_node rnd ''core_0'' ''core'' (0, 0) (95 / 100))\<lparr> quantum_state := Some zeros44 \<rparr>),
      (''agg_0'', new_node rnd ''agg_0'' ''aggregation'' (1, 0) (90 / 100))]"
  by (simp add: zeroed_arch_def Let_def arch_init_ok(2) tree_nodes_11)

lemma zeroed_arch_edges: "edges (fat_tree (zeroed_arch rnd frnd)) = [(''core_0'', ''agg_0'')]"
  by (simp add: zeroed_arch_def Let_def arch_init_ok(2) tree_edges_11)

lemma zeroed_arch_states: "quantum_states (spc_framework (zeroed_arch rnd frnd)) = []"
  using SPCFramework_init_ok[of 4 frnd] by (simp add: zeroed_arch_def Let_def arch_init_ok(3))

lemma zeroed_sync: "synchronize_layers (fat_tree (zeroed_arch rnd frnd)) = Inr NaN"
proof -
  have "calculate_sync_fidelity
      ((new_node rnd ''core_0'' ''core'' (0, 0) (95 / 100))\<lparr> quantum_state := Some zeros44 \<rparr>)
      (new_node rnd ''agg_0'' ''aggregation'' (1, 0) (90 / 100)) = Inr NaN"
    by (rule zero_state_fidelity[where rnd = rnd and nid = "''agg_0''"])
       (simp_all add: new_node_def)
  then show ?thesis
    by (simp add: synchronize_layers_def zeroed_arch_nodes zeroed_arch_edges)
qed

text \<open>
  C5. The claim: the value that \<open>synchronize_system\<close> returns lies in \<open>[0, 1]\<close>. The
  fidelity of an edge divides by the product of the two norms without a guard. After a
  node's state has been set to the zero matrix, the fidelity of its edge is
  \<open>0.0 / 0.0 = nan\<close>, the mean over the edges is \<open>nan\<close>, and with it the value returned,
  whatever numbers were drawn for the other node and for the reference field.
\<close>

theorem C5_zero_state_gives_nan:
  "fst (synchronize_system (zeroed_arch rnd frnd)) = Inr NaN \<and> \<not> in_unit NaN"
  by (simp add: synchronize_system_def zeroed_sync zeroed_arch_states ethical_scores_def
      in_unit_def Let_def)


text \<open>The registration of a unit vector of four entries under dimension 2.\<close>

lemma fw2_eq:
  "fw2 = \<lparr> dimension = 2, quantum_states = [],
     spc_ethical_constraints = spc_ethical_constraints fw2,
     consciousness_field = Some (Mat 2 2 [Val (1 / 2), Val (1 / 2), Val (1 / 2), Val (1 / 2)]) \<rparr>"
  by (simp add: fw2_def SPCFramework_init_def initialize_consciousness_field_def
      initialize_ethical_constraints_def Let_def normalized_def np_norm_def upt_rec
      numeral_eq_Suc)

lemma normalized_e1: "normalized e1 = e1"
  by (simp add: e1_def normalized_def np_norm_def)

lemma coherence_e1: "spc_calculate_coherence e1 = Fin 1"
  by (simp add: e1_def spc_calculate_coherence_def np_outer_def matmul_def column_def
      np_trace_def cv_dot_def cv_sum_def upt4)

lemma add_noise_e1: "add_noise noise1 e1 = Vec [Val 2, Val 0, Val 0, Val 0]"
  by (simp add: add_noise_def e1_def noise1_def upt4)

lemma normalized_2e1: "normalized (Vec [Val 2, Val 0, Val 0, Val 0]) = e1"
  by (simp add: e1_def normalized_def np_norm_def)

lemma entropy_e1:
  "calculate_entanglement_entropy noise1 e1 = Inr (Fin (- log 2 (1 + 1 / 10 ^ 10)))"
  by (simp add: entropy_unfold add_noise_e1 normalized_2e1 eigvals_outer_def)
     (simp add: e1_def)

lemma fidelity_e1: "calculate_ethical_fidelity fw2 e1 = Inr (Fin (1 / 2))"
  by (subst fw2_eq)
     (simp add: calculate_ethical_fidelity_def e1_def np_vdot_def cv_dot_def cv_sum_def
        np_norm_def power2_eq_square)

lemma make_state_e1: "make_state fw2 noise1 e1 = Inr q8"
  by (simp add: make_state_def coherence_e1 entropy_e1 fidelity_e1 q8_def)

text \<open>
  C8. The claim: the stored entanglement score is never negative. Registering the unit
  vector \<open>[1, 0, 0, 0]\<close> stores the score \<open>- log 2 (1 + 1e-10)\<close>, which is negative:
  the spectrum is filtered to the eigenvalue 1 and \<open>1e-10\<close> is added inside the logarithm.
\<close>

theorem C8_negative_entropy:
  "fst (create_quantum_state fw2 noise1 ''A'' e1) = Inr q8
   \<and> fl_less (entanglement_entropy q8) (Fin 0)"
  by (simp add: create_unfold normalized_e1 make_state_e1) (simp add: q8_def)

lemma stored_entropy:
  assumes "make_state fw noise w = Inr q" and "flatten w \<noteq> []"
    and "np_norm (add_noise noise w) \<noteq> PInf"
  shows "entanglement_entropy q = Fin (- log 2 (1 + 1 / 10 ^ 10))"
  using entropy_value[OF make_state_fields(2)[OF assms(1)]] assms(2,3) by simp






end
